theory Spec2Isabelle
  imports
    Complex_Main
    "HOL-Library.AList"
    "HOL-Library.Sublist"
    "HOL-Library.Multiset"
    "HOL-Library.Char_ord"
    "HOL-Library.List_Lexorder"
begin

chapter \<open>The TSP analysis and report pipeline (analysis/utils.py, analysis/generate_report.py)\<close>

text \<open>
  A shallow embedding of the analysis pipeline: the regular expressions that strip the
  multi-start suffix, the result loader, the descriptive statistics and rankings, the
  solution plot and the markdown tables.  Python exceptions are values of \<open>error\<close>;
  numbers read from JSON are reals; the NumPy scalars that pandas returns, whose division
  by zero yields an infinity or a not-a-number instead of raising, are values of
  \<open>float64\<close>.
\<close>

section \<open>Errors and numbers\<close>

datatype error = KeyError | IndexError | ValueError | ZeroDivisionError

text \<open>
  A NumPy \<open>float64\<close>: a finite value or one of the IEEE special values.  Finite values
  are exact reals (rounding and overflow are not modelled) and zero is the positive zero.
\<close>

datatype float64 = Finite real | PosInf | NegInf | NaN

fun np_div :: "float64 \<Rightarrow> float64 \<Rightarrow> float64" where
  "np_div NaN b = NaN"
| "np_div a NaN = NaN"
| "np_div (Finite a) (Finite b) =
     (if b \<noteq> 0 then Finite (a / b)
      else if a = 0 then NaN
      else if 0 < a then PosInf else NegInf)"
| "np_div (Finite a) PosInf = Finite 0"
| "np_div (Finite a) NegInf = Finite 0"
| "np_div PosInf (Finite b) = (if 0 \<le> b then PosInf else NegInf)"
| "np_div NegInf (Finite b) = (if 0 \<le> b then NegInf else PosInf)"
| "np_div PosInf PosInf = NaN"
| "np_div PosInf NegInf = NaN"
| "np_div NegInf PosInf = NaN"
| "np_div NegInf NegInf = NaN"

fun np_mul :: "float64 \<Rightarrow> float64 \<Rightarrow> float64" where
  "np_mul NaN b = NaN"
| "np_mul a NaN = NaN"
| "np_mul (Finite a) (Finite b) = Finite (a * b)"
| "np_mul (Finite a) PosInf = (if a = 0 then NaN else if 0 < a then PosInf else NegInf)"
| "np_mul (Finite a) NegInf = (if a = 0 then NaN else if 0 < a then NegInf else PosInf)"
| "np_mul PosInf (Finite b) = (if b = 0 then NaN else if 0 < b then PosInf else NegInf)"
| "np_mul NegInf (Finite b) = (if b = 0 then NaN else if 0 < b then NegInf else PosInf)"
| "np_mul PosInf PosInf = PosInf"
| "np_mul PosInf NegInf = NegInf"
| "np_mul NegInf PosInf = NegInf"
| "np_mul NegInf NegInf = PosInf"

section \<open>Stripping the multi-start suffix\<close>

text \<open>
  Two patterns are in use.  utils.py replaces \<^verbatim>\<open>_start\d+\<close> (every occurrence,
  anywhere in the label) to fill its \<^verbatim>\<open>base_algorithm\<close> column; generate_report.py
  replaces \<^verbatim>\<open>_start\d+$\<close> when it cleans the algorithm names of a table.  Both are
  \<^verbatim>\<open>re.sub\<close> with the empty replacement: the label is scanned from the left, a match
  is dropped and the scan goes on behind it, any other character is kept.

  A label is a list of 8-bit characters, among which \<^verbatim>\<open>\d\<close> matches the ten ASCII
  digits only.
\<close>

definition is_digit :: "char \<Rightarrow> bool" where
  "is_digit c = (c \<in> set ''0123456789'')"

fun after_prefix :: "string \<Rightarrow> string \<Rightarrow> string option" where
  "after_prefix [] s = Some s"
| "after_prefix (p # ps) [] = None"
| "after_prefix (p # ps) (c # cs) = (if p = c then after_prefix ps cs else None)"

text \<open>
  A match of \<^verbatim>\<open>_start\d+\<close> at the head of \<open>s\<close>: the literal, then the longest run of
  digits, which must not be empty.  The result is what follows the match.
\<close>

definition match_start_digits :: "string \<Rightarrow> string option" where
  "match_start_digits s =
     (case after_prefix ''_start'' s of
        None \<Rightarrow> None
      | Some r \<Rightarrow> if takeWhile is_digit r = [] then None else Some (dropWhile is_digit r))"

text \<open>
  Python's \<^verbatim>\<open>$\<close> (no MULTILINE flag) holds at the end of the string and just before a
  newline that is the last character.  Behind a shorter run of digits stands a digit, so
  backtracking into \<^verbatim>\<open>\d+\<close> never makes \<^verbatim>\<open>$\<close> hold.
\<close>

definition at_end :: "string \<Rightarrow> bool" where
  "at_end r = (r = [] \<or> r = [CHR 0x0A])"

definition match_start_digits_end :: "string \<Rightarrow> string option" where
  "match_start_digits_end s =
     (case match_start_digits s of
        None \<Rightarrow> None
      | Some r \<Rightarrow> if at_end r then Some r else None)"

lemma after_prefix_Some: "after_prefix p s = Some r \<longleftrightarrow> s = p @ r"
  by (induction p s rule: after_prefix.induct) auto

lemma match_start_digits_shorter:
  "match_start_digits s = Some r \<Longrightarrow> length r < length s"
  unfolding match_start_digits_def
  by (auto split: option.splits if_splits simp: after_prefix_Some
      intro: le_less_trans [OF length_dropWhile_le])

lemma match_start_digits_end_shorter:
  "match_start_digits_end s = Some r \<Longrightarrow> length r < length s"
  unfolding match_start_digits_end_def
  by (auto split: option.splits if_splits dest: match_start_digits_shorter)

text \<open>utils.py: \<^verbatim>\<open>df['algorithm'].str.replace(r'_start\d+', '', regex=True)\<close>.\<close>

function base_algorithm :: "string \<Rightarrow> string" where
  "base_algorithm [] = []"
| "base_algorithm (c # cs) =
     (case match_start_digits (c # cs) of
        Some r \<Rightarrow> base_algorithm r
      | None \<Rightarrow> c # base_algorithm cs)"
  by pat_completeness auto
termination
  by (relation "measure length") (auto dest: match_start_digits_shorter)

text \<open>
  generate_report.py, ``Clean algorithm names'':
  \<^verbatim>\<open>df['algorithm'].str.replace(r'_start\d+$', '', regex=True)\<close>.
\<close>

function clean_algorithm_name :: "string \<Rightarrow> string" where
  "clean_algorithm_name [] = []"
| "clean_algorithm_name (c # cs) =
     (case match_start_digits_end (c # cs) of
        Some r \<Rightarrow> clean_algorithm_name r
      | None \<Rightarrow> c # clean_algorithm_name cs)"
  by pat_completeness auto
termination
  by (relation "measure length") (auto dest: match_start_digits_end_shorter)

text \<open>
  The grammar of the specification, for comparison: a label has a multi-start suffix when
  one of its suffixes is \<^verbatim>\<open>_start\<close> followed by one or more digits.  The pattern of
  the report also accepts such a suffix in front of one final newline.
\<close>

definition is_start_suffix :: "string \<Rightarrow> bool" where
  "is_start_suffix s =
     (case after_prefix ''_start'' s of
        None \<Rightarrow> False
      | Some ds \<Rightarrow> ds \<noteq> [] \<and> list_all is_digit ds)"

definition has_start_suffix :: "string \<Rightarrow> bool" where
  "has_start_suffix L = list_ex is_start_suffix (suffixes L)"

definition trailing_start_suffix :: "string \<Rightarrow> bool" where
  "trailing_start_suffix L =
     (has_start_suffix L \<or>
      (L \<noteq> [] \<and> last L = CHR 0x0A \<and> has_start_suffix (butlast L)))"

section \<open>Run records and series statistics\<close>

text \<open>
  One run record per executed run.  The frame that \<^verbatim>\<open>pd.DataFrame(results)\<close> builds
  is the list of its rows; built from no record at all it has no column, and
  \<^verbatim>\<open>df['algorithm']\<close> raises KeyError.
\<close>

record run_record =
  algorithm :: string
  objective_value :: real
  path_length :: real
  node_costs :: real
  computation_time_ms :: real

type_synonym dataframe = "run_record list"

definition column :: "(run_record \<Rightarrow> 'a) \<Rightarrow> dataframe \<Rightarrow> error + 'a list" where
  "column f d = (if d = [] then Inl KeyError else Inr (map f d))"

text \<open>\<^verbatim>\<open>Series.unique()\<close>: the distinct values in the order of their first appearance.\<close>

fun unique :: "'a list \<Rightarrow> 'a list" where
  "unique [] = []"
| "unique (v # vs) = v # unique (filter (\<lambda>w. w \<noteq> v) vs)"

text \<open>
  Statistics of a series of values.  They are taken of the groups of a frame only, and a
  group holds at least one row (lemma \<open>group_not_empty\<close>).  The standard deviation is
  the sample one (\<^verbatim>\<open>ddof=1\<close>), not-a-number for a single value.
\<close>

definition mean :: "real list \<Rightarrow> real" where
  "mean vs = sum_list vs / real (length vs)"

definition series_min :: "real list \<Rightarrow> real" where
  "series_min vs = Min (set vs)"

definition series_max :: "real list \<Rightarrow> real" where
  "series_max vs = Max (set vs)"

definition series_std :: "real list \<Rightarrow> float64" where
  "series_std vs =
     (if length vs < 2 then NaN
      else Finite (sqrt (sum_list (map (\<lambda>v. (v - mean vs)\<^sup>2) vs) / real (length vs - 1))))"

text \<open>\<^verbatim>\<open>Series.quantile(q)\<close> with linear interpolation between the two nearest ranks.\<close>

definition quantile :: "real \<Rightarrow> real list \<Rightarrow> real" where
  "quantile q vs =
     (let s = sort vs;
          h = real (length vs - 1) * q;
          lo = nat \<lfloor>h\<rfloor>;
          hi = nat \<lceil>h\<rceil>
      in s ! lo + (h - real lo) * (s ! hi - s ! lo))"

text \<open>
  The rows of one algorithm: \<^verbatim>\<open>df[df[key] == name]\<close>, where the key column holds the
  label with its multi-start suffix stripped.
\<close>

definition group_of :: "(string \<Rightarrow> string) \<Rightarrow> string \<Rightarrow> dataframe \<Rightarrow> dataframe" where
  "group_of canon name d = filter (\<lambda>r. canon (algorithm r) = name) d"

section \<open>Nodes, solutions and the data of one instance\<close>

record node =
  node_id :: int
  node_x :: real
  node_y :: real
  node_cost :: real

record solution =
  route :: "int list"
  selected_nodes :: "int list"
  sol_objective_value :: real
  sol_path_length :: real
  sol_node_costs :: real
  is_validated :: bool
  validation_report :: string

record viz_data =
  nodes :: "node list"
  best_solutions :: "(string \<times> solution) list"

record algorithm_summary =
  total_runs :: nat
  min_objective :: real
  max_objective :: real
  avg_objective :: real
  best_solution_validated :: bool

type_synonym summary = "(string \<times> algorithm_summary) list"

text \<open>
  The dictionary \<^verbatim>\<open>{'df': ..., 'viz_data': ..., 'summary_data': ...}\<close> of one instance;
  the two optional parts are \<open>None\<close> when their file is missing.  A dictionary is an
  association list in insertion order, written with \<open>AList.update\<close> and read with
  \<open>map_of\<close>.
\<close>

record instance_data =
  df :: dataframe
  viz :: "viz_data option"
  summary_data :: "summary option"

type_synonym dataset = "(string \<times> instance_data) list"

section \<open>Loading the results\<close>

text \<open>
  The files under \<^verbatim>\<open>results/\<close>, by path.  A file that exists holds a document of
  its kind: the run records, the visualization payload or the summary digest.
\<close>

record filesystem =
  results_files :: "string \<rightharpoonup> run_record list"
  viz_files :: "string \<rightharpoonup> viz_data"
  summary_files :: "string \<rightharpoonup> summary"

definition results_path :: "string \<Rightarrow> string \<Rightarrow> string" where
  "results_path instance_name algorithm_folder =
     ''results/'' @ algorithm_folder @ ''/'' @ instance_name @ ''_'' @ algorithm_folder @
     ''_results.json''"

definition viz_path :: "string \<Rightarrow> string \<Rightarrow> string" where
  "viz_path instance_name algorithm_folder =
     ''results/'' @ algorithm_folder @ ''/'' @ instance_name @ ''_visualization.json''"

definition summary_path :: "string \<Rightarrow> string \<Rightarrow> string" where
  "summary_path instance_name algorithm_folder =
     ''results/'' @ algorithm_folder @ ''/'' @ instance_name @ ''_summary.json''"

text \<open>What the loader prints.\<close>

datatype diagnostic =
    ResultsFileNotFound string
  | Loaded nat string string
  | Algorithms "string list"

text \<open>
  \<^verbatim>\<open>load_algorithm_results\<close>: \<open>None\<close> stands for the triple
  \<^verbatim>\<open>(None, None, None)\<close>.
\<close>

definition load_algorithm_results ::
  "filesystem \<Rightarrow> string \<Rightarrow> string \<Rightarrow> instance_data option \<times> diagnostic list" where
  "load_algorithm_results fs instance_name algorithm_folder =
     (case results_files fs (results_path instance_name algorithm_folder) of
        None \<Rightarrow>
          (None, [ResultsFileNotFound (results_path instance_name algorithm_folder)])
      | Some results \<Rightarrow>
          (Some \<lparr>df = results,
                 viz = viz_files fs (viz_path instance_name algorithm_folder),
                 summary_data = summary_files fs (summary_path instance_name algorithm_folder)\<rparr>,
           Loaded (length results) instance_name algorithm_folder #
           (if results \<noteq> []
            then [Algorithms (sort (unique (map (base_algorithm \<circ> algorithm) results)))]
            else [])))"

text \<open>\<^verbatim>\<open>load_all_algorithm_results\<close>: the loop over the instances.\<close>

fun load_instances ::
  "filesystem \<Rightarrow> string \<Rightarrow> string list \<Rightarrow> dataset \<Rightarrow> dataset \<times> diagnostic list" where
  "load_instances fs algorithm_folder [] all_data = (all_data, [])"
| "load_instances fs algorithm_folder (i # is) all_data =
     (case load_algorithm_results fs i algorithm_folder of
        (None, out) \<Rightarrow>
          (let (res, out') = load_instances fs algorithm_folder is all_data
           in (res, out @ out'))
      | (Some d, out) \<Rightarrow>
          (let (res, out') = load_instances fs algorithm_folder is (AList.update i d all_data)
           in (res, out @ out')))"

definition load_all_algorithm_results ::
  "filesystem \<Rightarrow> string \<Rightarrow> string list option \<Rightarrow> dataset \<times> diagnostic list" where
  "load_all_algorithm_results fs algorithm_folder instances =
     load_instances fs algorithm_folder
       (case instances of None \<Rightarrow> [''TSPA'', ''TSPB''] | Some is \<Rightarrow> is) []"

text \<open>
  The report generator.  \<^verbatim>\<open>TSPReportGenerator.__init__\<close> takes the default instances
  for \<^verbatim>\<open>None\<close> and for the empty list (\<^verbatim>\<open>instances or ['TSPA', 'TSPB']\<close>), loads
  them and raises ValueError when nothing was loaded.  The output directories are not
  modelled.
\<close>

record visualization =
  vis_algorithm :: string
  vis_filename :: string
  solution_data :: solution

record report_generator =
  algorithm_folder :: string
  instances :: "string list"
  algorithm_data :: dataset
  visualizations :: "(string \<times> visualization list) list"

definition TSPReportGenerator_init ::
  "filesystem \<Rightarrow> string \<Rightarrow> string list option \<Rightarrow>
     (error + report_generator) \<times> diagnostic list" where
  "TSPReportGenerator_init fs folder requested =
     (let insts = (case requested of
                     None \<Rightarrow> [''TSPA'', ''TSPB'']
                   | Some [] \<Rightarrow> [''TSPA'', ''TSPB'']
                   | Some is \<Rightarrow> is);
          (loaded, out) = load_all_algorithm_results fs folder (Some insts)
      in (if loaded = [] then Inl ValueError
          else Inr \<lparr>algorithm_folder = folder, instances = insts,
                    algorithm_data = loaded, visualizations = []\<rparr>,
          out))"

section \<open>The solution plot\<close>

text \<open>
  An exception ends a computation at the first statement that raises it.
\<close>

definition bind_error :: "error + 'a \<Rightarrow> ('a \<Rightarrow> error + 'b) \<Rightarrow> error + 'b" where
  "bind_error m f = (case m of Inl e \<Rightarrow> Inl e | Inr v \<Rightarrow> f v)"




text \<open>\<^verbatim>\<open>d[k]\<close> raises KeyError for a key that is missing.\<close>

definition lookup :: "('k \<rightharpoonup> 'v) \<Rightarrow> 'k \<Rightarrow> error + 'v" where
  "lookup m k = (case m k of None \<Rightarrow> Inl KeyError | Some v \<Rightarrow> Inr v)"













section \<open>Exporting the best solutions\<close>

text \<open>
  \<^verbatim>\<open>VisualizationExporter.export_best_solutions_data\<close> writes one JSON file per
  instance that has a visualization payload.  \<^verbatim>\<open>required_nodes\<close> is read from the
  first best solution: \<^verbatim>\<open>list(best_solutions.values())[0]\<close> raises IndexError when
  there is none.  The files written before an exception stay written.
\<close>

record export_data =
  exp_instance :: string
  exp_algorithm_folder :: string
  exp_timestamp :: string
  exp_nodes :: "node list"
  exp_best_solutions :: "(string \<times> solution) list"
  total_nodes :: nat
  required_nodes :: nat
  algorithms_count :: nat

definition first_value :: "('k \<times> 'v) list \<Rightarrow> error + 'v" where
  "first_value kvs = (case kvs of [] \<Rightarrow> Inl IndexError | (_, v) # _ \<Rightarrow> Inr v)"

definition best_solutions_export ::
  "string \<Rightarrow> string \<Rightarrow> string \<Rightarrow> viz_data \<Rightarrow> error + export_data" where
  "best_solutions_export folder timestamp instance_name v =
     bind_error (first_value (best_solutions v)) (\<lambda>s.
       Inr \<lparr>exp_instance = instance_name,
            exp_algorithm_folder = folder,
            exp_timestamp = timestamp,
            exp_nodes = nodes v,
            exp_best_solutions = best_solutions v,
            total_nodes = length (nodes v),
            required_nodes = length (selected_nodes s),
            algorithms_count = length (best_solutions v)\<rparr>)"

definition export_filename :: "string \<Rightarrow> string \<Rightarrow> string \<Rightarrow> string" where
  "export_filename instance_name filename_suffix timestamp =
     instance_name @ ''_best_solutions'' @ filename_suffix @ ''_'' @ timestamp @ ''.json''"

text \<open>
  The result is the files written, in order, and the exception that ended the loop, if
  one did.
\<close>

fun export_best_solutions_data ::
  "string \<Rightarrow> string \<Rightarrow> string \<Rightarrow> dataset \<Rightarrow> (string \<times> export_data) list \<times> error option" where
  "export_best_solutions_data folder timestamp filename_suffix [] = ([], None)"
| "export_best_solutions_data folder timestamp filename_suffix ((instance_name, d) # rest) =
     (case viz d of
        None \<Rightarrow> export_best_solutions_data folder timestamp filename_suffix rest
      | Some v \<Rightarrow>
          (case best_solutions_export folder timestamp instance_name v of
             Inl e \<Rightarrow> ([], Some e)
           | Inr ex \<Rightarrow>
               (let (files, err) = export_best_solutions_data folder timestamp filename_suffix rest
                in ((export_filename instance_name filename_suffix timestamp, ex) # files, err))))"

section \<open>The comparison tables of the report\<close>

text \<open>
  \<^verbatim>\<open>sep.join(parts)\<close>.
\<close>

fun join :: "string \<Rightarrow> string list \<Rightarrow> string" where
  "join sep [] = []"
| "join sep [p] = p"
| "join sep (p # q # ps) = p @ sep @ join sep (q # ps)"

text \<open>
  The cell of an algorithm on an instance.  How Python prints a float with two decimals
  (\<^verbatim>\<open>:.2f\<close>) or none (\<^verbatim>\<open>:.0f\<close>) is a parameter.
\<close>

definition objective_cell :: "(real \<Rightarrow> string) \<Rightarrow> real list \<Rightarrow> string" where
  "objective_cell fmt2 vs =
     fmt2 (mean vs) @ '' ('' @ fmt2 (series_min vs) @ '' - '' @ fmt2 (series_max vs) @ '')''"

definition time_cell :: "(real \<Rightarrow> string) \<Rightarrow> (real \<Rightarrow> string) \<Rightarrow> real list \<Rightarrow> string" where
  "time_cell fmt2 fmt0 vs =
     fmt2 (mean vs) @ '' ('' @ fmt0 (series_min vs) @ '' - '' @ fmt0 (series_max vs) @ '')''"

text \<open>
  \<^verbatim>\<open>algorithm_stats\<close>: algorithm name to (instance name to cell).  An algorithm seen
  for the first time gets an empty inner dictionary, then the cell is stored.
\<close>

type_synonym stats_table = "(string \<times> (string \<times> string) list) list"

definition add_cell :: "string \<Rightarrow> string \<Rightarrow> string \<Rightarrow> stats_table \<Rightarrow> stats_table" where
  "add_cell a instance_name cell t =
     AList.update a
       (AList.update instance_name cell (case map_of t a of None \<Rightarrow> [] | Some cells \<Rightarrow> cells)) t"

text \<open>
  One instance: the copy of the frame gets its algorithm column cleaned, then every
  distinct name gets its cell from the rows that carry it.
\<close>

definition collect_instance ::
  "(run_record \<Rightarrow> real) \<Rightarrow> (real list \<Rightarrow> string) \<Rightarrow> string \<Rightarrow> dataframe \<Rightarrow>
     stats_table \<Rightarrow> error + stats_table" where
  "collect_instance col cell instance_name d t =
     bind_error (column algorithm d) (\<lambda>labels.
       (let cleaned = map (\<lambda>r. r\<lparr>algorithm := clean_algorithm_name (algorithm r)\<rparr>) d
        in Inr (fold (\<lambda>a. add_cell a instance_name
                            (cell (map col (filter (\<lambda>r. algorithm r = a) cleaned))))
                  (unique (map clean_algorithm_name labels)) t)))"

fun collect_stats ::
  "(run_record \<Rightarrow> real) \<Rightarrow> (real list \<Rightarrow> string) \<Rightarrow> dataset \<Rightarrow> stats_table \<Rightarrow>
     error + stats_table" where
  "collect_stats col cell [] t = Inr t"
| "collect_stats col cell ((instance_name, d) # rest) t =
     bind_error (collect_instance col cell instance_name (df d) t) (collect_stats col cell rest)"

text \<open>
  The rows: the algorithms in sorted order (the keys of a dictionary are distinct, so
  sorting the entries by key is sorting the keys), and for every requested instance the
  cell or \<^verbatim>\<open>"N/A"\<close>.
\<close>

definition table_rows :: "string list \<Rightarrow> stats_table \<Rightarrow> string list list" where
  "table_rows insts t =
     map (\<lambda>(a, cells).
            a # map (\<lambda>i. case map_of cells i of None \<Rightarrow> ''N/A'' | Some c \<Rightarrow> c) insts)
         (sort_key fst t)"

definition table_lines :: "string list \<Rightarrow> string list list \<Rightarrow> string list" where
  "table_lines insts table =
     (''| Algorithm | '' @ join '' | '' insts @ '' |'') #
     (''|'' @ join ''|'' (replicate (length insts + 1) ''---'') @ ''|'') #
     map (\<lambda>row. ''| '' @ join '' | '' row @ '' |'') table"

definition objective_table_rows ::
  "(real \<Rightarrow> string) \<Rightarrow> report_generator \<Rightarrow> error + string list list" where
  "objective_table_rows fmt2 g =
     bind_error (collect_stats objective_value (objective_cell fmt2) (algorithm_data g) [])
       (\<lambda>t. Inr (table_rows (instances g) t))"

definition generate_objective_table ::
  "(real \<Rightarrow> string) \<Rightarrow> report_generator \<Rightarrow> error + string" where
  "generate_objective_table fmt2 g =
     bind_error (objective_table_rows fmt2 g)
       (\<lambda>table. Inr (join [CHR 0x0A] (table_lines (instances g) table)))"

definition time_table_rows ::
  "(real \<Rightarrow> string) \<Rightarrow> (real \<Rightarrow> string) \<Rightarrow> report_generator \<Rightarrow> error + string list list" where
  "time_table_rows fmt2 fmt0 g =
     bind_error (collect_stats computation_time_ms (time_cell fmt2 fmt0) (algorithm_data g) [])
       (\<lambda>t. Inr (table_rows (instances g) t))"

definition generate_time_table ::
  "(real \<Rightarrow> string) \<Rightarrow> (real \<Rightarrow> string) \<Rightarrow> report_generator \<Rightarrow> error + string" where
  "generate_time_table fmt2 fmt0 g =
     bind_error (time_table_rows fmt2 fmt0 g)
       (\<lambda>table. Inr (join [CHR 0x0A] (table_lines (instances g) table)))"

text \<open>
  The visualization sections of \<^verbatim>\<open>generate_markdown_report\<close>: an instance without
  recorded visualizations is skipped.  \<open>str_int\<close> is Python's \<^verbatim>\<open>str\<close> of an integer.
\<close>

fun str_nat :: "nat \<Rightarrow> string" where
  "str_nat n =
     (if n < 10 then [char_of (48 + n)] else str_nat (n div 10) @ [char_of (48 + n mod 10)])"

definition str_int :: "int \<Rightarrow> string" where
  "str_int i = (if i < 0 then CHR ''-'' # str_nat (nat (- i)) else str_nat (nat i))"

definition visualization_lines :: "visualization \<Rightarrow> string list" where
  "visualization_lines vz =
     [''#### '' @ vis_algorithm vz @ [CHR 0x0A],
      ''!['' @ vis_algorithm vz @ ''](images/'' @ vis_filename vz @ '')'' @ [CHR 0x0A],
      ''**Node Order (Route):**'',
      join '', '' (map str_int (route (solution_data vz))) @ [CHR 0x0A]]"

definition visualization_sections :: "report_generator \<Rightarrow> string list" where
  "visualization_sections g =
     concat (map (\<lambda>i. case map_of (visualizations g) i of
                         None \<Rightarrow> []
                       | Some vs \<Rightarrow>
                           (''### Instance: '' @ i @ [CHR 0x0A]) #
                           concat (map visualization_lines vs))
                 (instances g))"

text \<open>
  \<^verbatim>\<open>generate_markdown_report\<close>, with the title already chosen (the caller's, or the
  one derived from the folder name).
\<close>

definition generate_markdown_report ::
  "(real \<Rightarrow> string) \<Rightarrow> (real \<Rightarrow> string) \<Rightarrow> report_generator \<Rightarrow> string list option \<Rightarrow>
     string \<Rightarrow> error + string" where
  "generate_markdown_report fmt2 fmt0 g authors title =
     bind_error (generate_objective_table fmt2 g) (\<lambda>objective_table.
     bind_error (generate_time_table fmt2 fmt0 g) (\<lambda>time_table.
       Inr (join [CHR 0x0A]
         ([''# '' @ title @ [CHR 0x0A]] @
          (case authors of
             None \<Rightarrow> []
           | Some [] \<Rightarrow> []
           | Some as \<Rightarrow> [''## Authors''] @ map (\<lambda>a. ''- '' @ a) as @ [[]]) @
          [''## Implemented Algorithms'' @ [CHR 0x0A],
           ''### Pseudocode'' @ [CHR 0x0A],
           ''```'',
           ''# TODO: Add algorithm pseudocode here'',
           ''```'' @ [CHR 0x0A],
           ''---'' @ [CHR 0x0A],
           ''## Experiment Results'' @ [CHR 0x0A],
           ''### Objective function'' @ [CHR 0x0A],
           objective_table,
           [CHR 0x0A] @ ''---'' @ [CHR 0x0A],
           ''### Computation Times (ms)'' @ [CHR 0x0A],
           time_table,
           [],
           ''## 2D Visualization of Best Solution'' @ [CHR 0x0A]] @
          visualization_sections g @
          [''---'' @ [CHR 0x0A],
           ''## Conclusions'' @ [CHR 0x0A],
           ''### Key Findings'' @ [CHR 0x0A],
           ''<!-- TODO: Add analysis of results -->'' @ [CHR 0x0A],
           [CHR 0x0A],
           ''### Performance Comparison'' @ [CHR 0x0A],
           ''<!-- TODO: Compare algorithms -->'' @ [CHR 0x0A],
           [CHR 0x0A],
           ''### Observations'' @ [CHR 0x0A],
           ''<!-- TODO: Add observations -->'' @ [CHR 0x0A]]))))"

section \<open>Rankings and improvement percentages\<close>

text \<open>
  \<^verbatim>\<open>sort_values(key)\<close> orders the rows by one key column and looks at nothing else; rows
  with equal keys are kept in their order here (an insertion sort, which is what NumPy's
  default sort runs on a short array).
\<close>

definition sort_values :: "('a \<Rightarrow> real) \<Rightarrow> 'a list \<Rightarrow> 'a list" where
  "sort_values k rows = sort_key k rows"

record ranking_row =
  Instance :: string
  Algorithm :: string
  Mean_Objective :: real
  Std_Objective :: float64
  Best_Objective :: real
  Worst_Objective :: real
  Mean_Time_ms :: real
  Success_Rate :: real
  Runs :: nat

text \<open>
  \<^verbatim>\<open>create_performance_ranking\<close>.  The first loop appends one row per instance and
  distinct \<^verbatim>\<open>base_algorithm\<close>, in the order of first appearance.
\<close>

definition ranking_entry :: "string \<Rightarrow> dataframe \<Rightarrow> string \<Rightarrow> ranking_row" where
  "ranking_entry instance_name d a =
     (let algo_data = group_of base_algorithm a d
      in \<lparr>Instance = instance_name,
          Algorithm = a,
          Mean_Objective = mean (map objective_value algo_data),
          Std_Objective = series_std (map objective_value algo_data),
          Best_Objective = series_min (map objective_value algo_data),
          Worst_Objective = series_max (map objective_value algo_data),
          Mean_Time_ms = mean (map computation_time_ms algo_data),
          Success_Rate = 1,
          Runs = length algo_data\<rparr>)"

fun ranking_data :: "dataset \<Rightarrow> error + ranking_row list" where
  "ranking_data [] = Inr []"
| "ranking_data ((instance_name, x) # rest) =
     bind_error (column algorithm (df x)) (\<lambda>labels.
     bind_error (ranking_data rest) (\<lambda>more.
       Inr (map (ranking_entry instance_name (df x)) (unique (map base_algorithm labels)) @ more)))"

text \<open>
  The second loop displays, for every instance of the ranking frame, its rows sorted by
  \<^verbatim>\<open>Mean_Objective\<close> and numbered from 1 (the \<^verbatim>\<open>Rank\<close> column).  A ranking frame
  without rows has no \<^verbatim>\<open>Instance\<close> column.  The function returns the unsorted frame;
  the result here is that frame and what is displayed, without the rounding of the printed
  numbers and without the best-against-worst summary.
\<close>

definition instance_ranking :: "ranking_row list \<Rightarrow> (nat \<times> ranking_row) list" where
  "instance_ranking rows =
     (let sorted_rows = sort_values Mean_Objective rows
      in zip [1..<length sorted_rows + 1] sorted_rows)"

definition create_performance_ranking ::
  "dataset \<Rightarrow> error + ranking_row list \<times> (string \<times> (nat \<times> ranking_row) list) list" where
  "create_performance_ranking data =
     bind_error (ranking_data data) (\<lambda>ranking_df.
       if ranking_df = [] then Inl KeyError
       else Inr (ranking_df,
                 map (\<lambda>i. (i, instance_ranking (filter (\<lambda>r. Instance r = i) ranking_df)))
                   (unique (map Instance ranking_df))))"

text \<open>
  The order that the specification asks of a ranking, for comparison: ascending mean, then
  ascending standard deviation, then the name.
\<close>

fun std_less :: "float64 \<Rightarrow> float64 \<Rightarrow> bool" where
  "std_less (Finite a) (Finite b) = (a < b)"
| "std_less a b = False"

definition ranked_before :: "ranking_row \<Rightarrow> ranking_row \<Rightarrow> bool" where
  "ranked_before r s =
     (Mean_Objective r < Mean_Objective s \<or>
      (Mean_Objective r = Mean_Objective s \<and>
       (std_less (Std_Objective r) (Std_Objective s) \<or>
        (Std_Objective r = Std_Objective s \<and> Algorithm r \<le> Algorithm s))))"

text \<open>
  \<^verbatim>\<open>perform_statistical_analysis\<close>, the improvement analysis that the loop prints
  for the frame of one instance.  \<^verbatim>\<open>groupby('base_algorithm')\<close> lists the groups by
  sorted name; the means are then sorted, the first one is the best, and every other
  algorithm gets its percentage.  The means are NumPy scalars.
\<close>

definition group_means :: "dataframe \<Rightarrow> (string \<times> real) list" where
  "group_means d =
     map (\<lambda>a. (a, mean (map objective_value (group_of base_algorithm a d))))
       (sort (remdups (map (base_algorithm \<circ> algorithm) d)))"

definition improvement :: "real \<Rightarrow> real \<Rightarrow> float64" where
  "improvement best_mean mean_val =
     np_mul (np_div (Finite (mean_val - best_mean)) (Finite mean_val)) (Finite 100)"

definition improvement_over_best :: "dataframe \<Rightarrow> error + (string \<times> float64) list" where
  "improvement_over_best d =
     bind_error (column algorithm d) (\<lambda>_.
       (case sort_values snd (group_means d) of
          [] \<Rightarrow> Inl IndexError
        | (best, best_mean) # others \<Rightarrow>
            Inr (map (\<lambda>(a, mean_val). (a, improvement best_mean mean_val)) others)))"

section \<open>The statistics export and the frames it writes to\<close>

record statistics =
  stat_count :: nat
  stat_mean :: float64
  stat_std :: float64
  stat_min :: float64
  stat_max :: float64
  stat_q1 :: float64
  stat_q3 :: float64
  cv_percent :: float64

text \<open>
  The summary of one group of objective values, as \<^verbatim>\<open>export_statistics_summary\<close>
  computes it: \<^verbatim>\<open>cv_percent = float(std / mean * 100)\<close> on NumPy scalars.
\<close>

definition series_statistics :: "real list \<Rightarrow> statistics" where
  "series_statistics vs =
     \<lparr>stat_count = length vs,
      stat_mean = Finite (mean vs),
      stat_std = series_std vs,
      stat_min = Finite (series_min vs),
      stat_max = Finite (series_max vs),
      stat_q1 = Finite (quantile 0.25 vs),
      stat_q3 = Finite (quantile 0.75 vs),
      cv_percent = np_mul (np_div (series_std vs) (Finite (mean vs))) (Finite 100)\<rparr>"

text \<open>
  A frame as an object: its rows and, once some code has assigned it, the
  \<^verbatim>\<open>base_algorithm\<close> column.  The heap maps the address of a frame to its state;
  \<^verbatim>\<open>df.copy()\<close> allocates a new frame, an assignment \<^verbatim>\<open>df[...] = ...\<close> writes to the frame
  at the address it is given.
\<close>

record frame =
  frame_rows :: dataframe
  base_algorithm_column :: "string list option"

record heap =
  heap_cells :: "nat \<rightharpoonup> frame"
  next_address :: nat

definition frame_copy :: "nat \<Rightarrow> heap \<Rightarrow> error + nat \<times> heap" where
  "frame_copy a h =
     bind_error (lookup (heap_cells h) a) (\<lambda>f.
       Inr (next_address h,
            h\<lparr>heap_cells := (heap_cells h)(next_address h \<mapsto> f), next_address := next_address h + 1\<rparr>))"

text \<open>\<^verbatim>\<open>df['base_algorithm'] = df['algorithm'].str.replace(r'_start\d+', '', regex=True)\<close>.\<close>

definition assign_base_algorithm :: "nat \<Rightarrow> heap \<Rightarrow> error + heap" where
  "assign_base_algorithm a h =
     bind_error (lookup (heap_cells h) a) (\<lambda>f.
     bind_error (column algorithm (frame_rows f)) (\<lambda>labels.
       Inr (h\<lparr>heap_cells := (heap_cells h)(a \<mapsto> f\<lparr>base_algorithm_column := Some (map base_algorithm labels)\<rparr>)\<rparr>)))"

text \<open>
  \<^verbatim>\<open>export_statistics_summary\<close> for one instance, whose frame \<^verbatim>\<open>instance_data['df']\<close>
  lives at address \<open>a\<close>: the column is assigned to that very frame, the summary is computed
  per distinct base algorithm, and the frame is written out as CSV.  The result is the
  JSON summary, the frame written as CSV, and the heap.
\<close>

definition export_statistics_instance ::
  "nat \<Rightarrow> heap \<Rightarrow> error + ((string \<times> statistics) list \<times> frame) \<times> heap" where
  "export_statistics_instance a h =
     bind_error (assign_base_algorithm a h) (\<lambda>h'.
     bind_error (lookup (heap_cells h') a) (\<lambda>f.
       Inr ((fold (\<lambda>name. AList.update name
                     (series_statistics (map objective_value (group_of base_algorithm name (frame_rows f)))))
               (unique (case base_algorithm_column f of None \<Rightarrow> [] | Some c \<Rightarrow> c)) [],
             f), h')))"

fun export_statistics_summary ::
  "(string \<times> nat) list \<Rightarrow> heap \<Rightarrow>
     error + (string \<times> (string \<times> statistics) list \<times> frame) list \<times> heap" where
  "export_statistics_summary [] h = Inr ([], h)"
| "export_statistics_summary ((instance_name, a) # rest) h =
     bind_error (export_statistics_instance a h) (\<lambda>((stats, csv), h').
     bind_error (export_statistics_summary rest h') (\<lambda>(files, h'').
       Inr ((instance_name, stats, csv) # files, h'')))"

text \<open>
  \<^verbatim>\<open>_create_and_save_performance_plot\<close> assigns the column to the caller's frame in the
  same way before it plots; what reaches the caller is the heap.
\<close>

definition create_and_save_performance_plot :: "nat \<Rightarrow> heap \<Rightarrow> error + heap" where
  "create_and_save_performance_plot a h = assign_base_algorithm a h"

text \<open>
  The functions that analyse or plot (\<^verbatim>\<open>perform_statistical_analysis\<close>,
  \<^verbatim>\<open>create_performance_ranking\<close>, \<^verbatim>\<open>plot_objective_components\<close>, the two table
  builders, ...) start with \<^verbatim>\<open>df.copy()\<close> and assign to the copy.
\<close>

definition normalize_copy :: "nat \<Rightarrow> heap \<Rightarrow> error + nat \<times> heap" where
  "normalize_copy a h =
     bind_error (frame_copy a h) (\<lambda>(b, h').
     bind_error (assign_base_algorithm b h') (\<lambda>h''. Inr (b, h'')))"

section \<open>Reference values and example data\<close>


text \<open>
  An instance of three nodes with the costs 1, 5 and 10, and the route 3, 7, 9 over it; an
  instance whose nodes all cost the same.
\<close>

definition example_solution :: solution where
  "example_solution =
     \<lparr>route = [3, 7, 9], selected_nodes = [3, 7, 9], sol_objective_value = 50,
      sol_path_length = 34, sol_node_costs = 16, is_validated = True, validation_report = []\<rparr>"

definition example_viz :: viz_data where
  "example_viz =
     \<lparr>nodes = [\<lparr>node_id = 3, node_x = 0, node_y = 0, node_cost = 1\<rparr>,
               \<lparr>node_id = 7, node_x = 10, node_y = 0, node_cost = 5\<rparr>,
               \<lparr>node_id = 9, node_x = 10, node_y = 10, node_cost = 10\<rparr>],
      best_solutions = [(''greedy'', example_solution)]\<rparr>"


text \<open>
  A results folder that holds the records of TSPA only: two greedy runs from different
  starts and one regret run.
\<close>

definition example_results :: dataframe where
  "example_results =
     [\<lparr>algorithm = ''greedy_start1'', objective_value = 100, path_length = 80, node_costs = 20,
       computation_time_ms = 5\<rparr>,
      \<lparr>algorithm = ''greedy_start2'', objective_value = 90, path_length = 70, node_costs = 20,
       computation_time_ms = 6\<rparr>,
      \<lparr>algorithm = ''regret'', objective_value = 110, path_length = 90, node_costs = 20,
       computation_time_ms = 7\<rparr>]"

definition example_fs :: filesystem where
  "example_fs =
     \<lparr>results_files = [results_path ''TSPA'' ''greedy'' \<mapsto> example_results],
      viz_files = [viz_path ''TSPA'' ''greedy'' \<mapsto> example_viz],
      summary_files = Map.empty\<rparr>"

text \<open>
  The instances that a generator works on: the requested ones, or the default pair when
  none is given.
\<close>

definition requested_instances :: "string list option \<Rightarrow> string list" where
  "requested_instances requested =
     (case requested of
        None \<Rightarrow> [''TSPA'', ''TSPB'']
      | Some [] \<Rightarrow> [''TSPA'', ''TSPB'']
      | Some is \<Rightarrow> is)"

text \<open>
  The export of an instance whose payload names at least one best solution, and the test
  that an instance can be exported (it has no payload, or its payload has a best solution).
\<close>

definition expected_export :: "string \<Rightarrow> string \<Rightarrow> string \<Rightarrow> viz_data \<Rightarrow> export_data" where
  "expected_export folder timestamp instance_name v =
     \<lparr>exp_instance = instance_name,
      exp_algorithm_folder = folder,
      exp_timestamp = timestamp,
      exp_nodes = nodes v,
      exp_best_solutions = best_solutions v,
      total_nodes = length (nodes v),
      required_nodes = length (selected_nodes (snd (hd (best_solutions v)))),
      algorithms_count = length (best_solutions v)\<rparr>"

definition exportable :: "instance_data \<Rightarrow> bool" where
  "exportable d = (case viz d of None \<Rightarrow> True | Some v \<Rightarrow> best_solutions v \<noteq> [])"

definition example_data :: dataset where
  "example_data = [(''TSPA'', \<lparr>df = example_results, viz = Some example_viz, summary_data = None\<rparr>)]"

definition empty_payload_data :: dataset where
  "empty_payload_data =
     example_data @
     [(''TSPB'', \<lparr>df = example_results,
                  viz = Some \<lparr>nodes = nodes example_viz, best_solutions = []\<rparr>,
                  summary_data = None\<rparr>)]"





text \<open>
  Reading the dictionary of cells at an algorithm and an instance; the cell that one
  instance contributes for an algorithm.
\<close>

definition cell_at :: "stats_table \<Rightarrow> string \<Rightarrow> string \<Rightarrow> string option" where
  "cell_at t a i = map_of (case map_of t a of None \<Rightarrow> [] | Some cells \<Rightarrow> cells) i"



text \<open>
  The base algorithms of a frame in the order of first appearance, the mean objective
  value of one of them, and the sample standard deviation of two or more values.
\<close>

definition base_algorithms :: "dataframe \<Rightarrow> string list" where
  "base_algorithms d = unique (map (base_algorithm \<circ> algorithm) d)"

definition group_mean :: "dataframe \<Rightarrow> string \<Rightarrow> real" where
  "group_mean d a = mean (map objective_value (group_of base_algorithm a d))"

definition sample_std :: "real list \<Rightarrow> real" where
  "sample_std vs = sqrt (sum_list (map (\<lambda>v. (v - mean vs)\<^sup>2) vs) / real (length vs - 1))"

text \<open>
  Two algorithms with the same runs, hence the same mean and the same standard deviation;
  \<^verbatim>\<open>b\<close> comes first in the records.  Their ranking rows.
\<close>

definition tie_results :: dataframe where
  "tie_results =
     [\<lparr>algorithm = ''b_start1'', objective_value = 4, path_length = 3, node_costs = 1,
       computation_time_ms = 2\<rparr>,
      \<lparr>algorithm = ''b_start2'', objective_value = 6, path_length = 5, node_costs = 1,
       computation_time_ms = 2\<rparr>,
      \<lparr>algorithm = ''a_start1'', objective_value = 4, path_length = 3, node_costs = 1,
       computation_time_ms = 2\<rparr>,
      \<lparr>algorithm = ''a_start2'', objective_value = 6, path_length = 5, node_costs = 1,
       computation_time_ms = 2\<rparr>]"

definition tie_data :: dataset where
  "tie_data = [(''TSPA'', \<lparr>df = tie_results, viz = None, summary_data = None\<rparr>)]"

definition tie_row :: "string \<Rightarrow> ranking_row" where
  "tie_row a =
     \<lparr>Instance = ''TSPA'', Algorithm = a, Mean_Objective = 5, Std_Objective = Finite (sqrt 2),
      Best_Objective = 4, Worst_Objective = 6, Mean_Time_ms = 2, Success_Rate = 1, Runs = 2\<rparr>"

text \<open>A heap that holds the frame of the example at address 0.\<close>

definition example_heap :: heap where
  "example_heap =
     \<lparr>heap_cells = [0 \<mapsto> \<lparr>frame_rows = example_results, base_algorithm_column = None\<rparr>],
      next_address = 1\<rparr>"

text \<open>The rows that one instance contributes to the ranking frame.\<close>

definition instance_rows :: "string \<Rightarrow> dataframe \<Rightarrow> ranking_row list" where
  "instance_rows i d = map (ranking_entry i d) (base_algorithms d)"

chapter \<open>Properties\<close>

section \<open>Canonical algorithm names\<close>

lemma after_prefix_append: "after_prefix p (p @ r) = Some r"
  by (simp add: after_prefix_Some)

lemma is_start_suffix_iff:
  "is_start_suffix s \<longleftrightarrow> (\<exists>ds. ds \<noteq> [] \<and> list_all is_digit ds \<and> s = ''_start'' @ ds)"
  unfolding is_start_suffix_def
  by (cases "after_prefix ''_start'' s")
     (auto simp: after_prefix_Some after_prefix_append simp del: append.simps after_prefix.simps)

lemma has_start_suffix_iff:
  "has_start_suffix L \<longleftrightarrow>
     (\<exists>p ds. ds \<noteq> [] \<and> list_all is_digit ds \<and> L = p @ ''_start'' @ ds)"
  unfolding has_start_suffix_def list_ex_iff is_start_suffix_iff
  by (fastforce simp: suffix_def simp del: append.simps)

lemma underscore_not_digit: "\<not> is_digit CHR ''_''"
  by (simp add: is_digit_def)

lemma newline_not_digit: "\<not> is_digit (CHR 0x0A)"
  by (simp add: is_digit_def)

lemma match_start_digits_Some:
  "match_start_digits s = Some r \<longleftrightarrow>
     (\<exists>t. s = ''_start'' @ t \<and> takeWhile is_digit t \<noteq> [] \<and> r = dropWhile is_digit t)"
  unfolding match_start_digits_def
  by (cases "after_prefix ''_start'' s")
     (auto simp: after_prefix_Some after_prefix_append simp del: append.simps after_prefix.simps)

lemma match_start_digits_end_Some:
  "match_start_digits_end s = Some r \<longleftrightarrow>
     (\<exists>ds. ds \<noteq> [] \<and> list_all is_digit ds \<and> s = ''_start'' @ ds @ r \<and> at_end r)"
proof
  assume "match_start_digits_end s = Some r"
  then obtain t where t: "s = ''_start'' @ t" "takeWhile is_digit t \<noteq> []"
      "r = dropWhile is_digit t" "at_end r"
    unfolding match_start_digits_end_def
    by (auto split: option.splits if_splits simp: match_start_digits_Some simp del: append.simps)
  have "list_all is_digit (takeWhile is_digit t)"
    by (simp add: list_all_iff) (meson set_takeWhileD)
  moreover have "s = ''_start'' @ takeWhile is_digit t @ r"
    using t by (simp del: append.simps)
  ultimately show "\<exists>ds. ds \<noteq> [] \<and> list_all is_digit ds \<and> s = ''_start'' @ ds @ r \<and> at_end r"
    using t by blast
next
  assume "\<exists>ds. ds \<noteq> [] \<and> list_all is_digit ds \<and> s = ''_start'' @ ds @ r \<and> at_end r"
  then obtain ds where ds: "ds \<noteq> []" "list_all is_digit ds" "s = ''_start'' @ ds @ r" "at_end r"
    by blast
  have r: "takeWhile is_digit r = []" "dropWhile is_digit r = r"
    using ds(4) by (auto simp: at_end_def newline_not_digit)
  have "takeWhile is_digit (ds @ r) = ds" "dropWhile is_digit (ds @ r) = r"
    using ds(2) r by (simp_all add: list_all_iff takeWhile_append2 dropWhile_append2)
  then have "match_start_digits s = Some r"
    using ds(1,3) unfolding match_start_digits_Some by (intro exI [of _ "ds @ r"]) simp
  then show "match_start_digits_end s = Some r"
    using ds(4) by (simp add: match_start_digits_end_def)
qed

lemma match_end_no_underscore:
  assumes "match_start_digits_end (c # cs) = Some r"
  shows "CHR ''_'' \<notin> set cs"
proof -
  obtain ds where ds: "list_all is_digit ds" "c # cs = ''_start'' @ ds @ r" "at_end r"
    using assms unfolding match_start_digits_end_Some by blast
  then have "cs = ''start'' @ ds @ r" by simp
  moreover have "CHR ''_'' \<notin> set ds"
    using ds(1) underscore_not_digit by (auto simp: list_all_iff)
  moreover have "CHR ''_'' \<notin> set r"
    using ds(3) by (auto simp: at_end_def)
  ultimately show ?thesis by simp
qed

lemma clean_at_end: "at_end r \<Longrightarrow> clean_algorithm_name r = r"
  by (auto simp: at_end_def match_start_digits_end_def match_start_digits_def)

lemma clean_strips_suffix:
  assumes "ds \<noteq> []" "list_all is_digit ds" "at_end r"
  shows "clean_algorithm_name (p @ ''_start'' @ ds @ r) = p @ r"
proof (induction p)
  case Nil
  have "match_start_digits_end (''_start'' @ ds @ r) = Some r"
    using assms unfolding match_start_digits_end_Some by blast
  then show ?case using clean_at_end [OF assms(3)] by simp
next
  case (Cons c p)
  have "match_start_digits_end (c # p @ ''_start'' @ ds @ r) = None"
  proof (cases "match_start_digits_end (c # p @ ''_start'' @ ds @ r)")
    case (Some r')
    from match_end_no_underscore [OF this] show ?thesis by simp
  qed simp
  then show ?case using Cons.IH by simp
qed

lemma has_start_suffix_Cons: "has_start_suffix cs \<Longrightarrow> has_start_suffix (c # cs)"
  by (simp add: has_start_suffix_def)

lemma trailing_start_suffix_Cons:
  "trailing_start_suffix cs \<Longrightarrow> trailing_start_suffix (c # cs)"
  unfolding trailing_start_suffix_def
  by (auto simp: has_start_suffix_Cons)

lemma match_end_trailing:
  assumes "match_start_digits_end s = Some r"
  shows "trailing_start_suffix s"
proof -
  obtain ds where ds: "ds \<noteq> []" "list_all is_digit ds" "s = ''_start'' @ ds @ r" "at_end r"
    using assms unfolding match_start_digits_end_Some by blast
  show ?thesis
  proof (cases "r = []")
    case True
    then have "has_start_suffix s"
      unfolding has_start_suffix_iff using ds by (intro exI [of _ "[]"] exI [of _ ds]) simp
    then show ?thesis by (simp add: trailing_start_suffix_def)
  next
    case False
    then have r: "r = [CHR 0x0A]" using ds(4) by (simp add: at_end_def)
    have "butlast s = ''_start'' @ ds" "last s = CHR 0x0A" "s \<noteq> []"
      using ds(3) r by (simp_all add: butlast_append)
    moreover have "has_start_suffix (''_start'' @ ds)"
      unfolding has_start_suffix_iff using ds by (intro exI [of _ "[]"] exI [of _ ds]) simp
    ultimately show ?thesis by (simp add: trailing_start_suffix_def)
  qed
qed

lemma clean_unchanged:
  "\<not> trailing_start_suffix L \<Longrightarrow> clean_algorithm_name L = L"
proof (induction L)
  case Nil
  show ?case by simp
next
  case (Cons c cs)
  have "match_start_digits_end (c # cs) = None"
    using Cons.prems match_end_trailing by (cases "match_start_digits_end (c # cs)") auto
  moreover have "\<not> trailing_start_suffix cs"
    using Cons.prems trailing_start_suffix_Cons by blast
  ultimately show ?case using Cons.IH by simp
qed

text \<open>
  The pattern of utils.py is not anchored: it also removes a suffix in the middle of a
  label, and a second pass can remove what the first one joined together.
\<close>

lemma base_algorithm_strips_in_the_middle:
  "base_algorithm ''foo_start3_bar'' = ''foo_bar''"
  by code_simp

lemma base_algorithm_second_pass:
  "base_algorithm ''_sta_start1rt2'' = ''_start2'' \<and> base_algorithm ''_start2'' = []"
  by code_simp

text \<open>
  Claim C1, as the code has it.  The pattern of the report tables strips one suffix
  \<^verbatim>\<open>_start\<close> plus one or more digits that stands at the end of the label (or in
  front of one final newline) and leaves every other label unchanged, one with the suffix
  in the middle included.  Applying it twice gives the same as once whenever the result no
  longer ends in such a suffix.
\<close>

theorem clean_algorithm_name_strips_one_suffix:
  "(ds \<noteq> [] \<and> list_all is_digit ds \<longrightarrow>
      clean_algorithm_name (p @ ''_start'' @ ds) = p \<and>
      clean_algorithm_name (p @ ''_start'' @ ds @ [CHR 0x0A]) = p @ [CHR 0x0A]) \<and>
   (\<not> trailing_start_suffix L \<longrightarrow> clean_algorithm_name L = L) \<and>
   (\<not> trailing_start_suffix (clean_algorithm_name L) \<longrightarrow>
      clean_algorithm_name (clean_algorithm_name L) = clean_algorithm_name L) \<and>
   clean_algorithm_name ''foo_start3'' = ''foo'' \<and>
   clean_algorithm_name ''foo'' = ''foo'' \<and>
   clean_algorithm_name ''foo_start3_bar'' = ''foo_start3_bar''"
proof -
  have a: "clean_algorithm_name (p @ ''_start'' @ ds) = p"
    if "ds \<noteq> []" "list_all is_digit ds"
    using clean_strips_suffix [OF that, of "[]" p] by (simp add: at_end_def)
  have b: "clean_algorithm_name (p @ ''_start'' @ ds @ [CHR 0x0A]) = p @ [CHR 0x0A]"
    if "ds \<noteq> []" "list_all is_digit ds"
    using clean_strips_suffix [OF that, of "[CHR 0x0A]" p] by (simp add: at_end_def)
  have c: "clean_algorithm_name ''foo_start3'' = ''foo''"
    "clean_algorithm_name ''foo'' = ''foo''"
    "clean_algorithm_name ''foo_start3_bar'' = ''foo_start3_bar''"
    by code_simp+
  show ?thesis using a b c clean_unchanged by blast
qed

text \<open>The theorem of claim C1 at the labels \<^verbatim>\<open>greedy_start12\<close> and \<^verbatim>\<open>regret\<close>.\<close>

theorem clean_algorithm_name_strips_one_suffix_witness:
  "clean_algorithm_name (''greedy'' @ ''_start'' @ ''12'') = ''greedy'' \<and>
   clean_algorithm_name (''greedy'' @ ''_start'' @ ''12'' @ [CHR 0x0A]) = ''greedy'' @ [CHR 0x0A] \<and>
   \<not> trailing_start_suffix ''regret'' \<and>
   clean_algorithm_name ''regret'' = ''regret'' \<and>
   \<not> trailing_start_suffix (clean_algorithm_name ''regret'') \<and>
   clean_algorithm_name (clean_algorithm_name ''regret'') = clean_algorithm_name ''regret''"
proof -
  have h1: "''12'' \<noteq> [] \<and> list_all is_digit ''12''" by (simp add: is_digit_def)
  have h2: "\<not> trailing_start_suffix ''regret''" by code_simp
  have h3: "\<not> trailing_start_suffix (clean_algorithm_name ''regret'')" by code_simp
  show ?thesis
    using h1 h2 h3 clean_algorithm_name_strips_one_suffix [of "''12''" "''greedy''" "''regret''"]
    by blast
qed

text \<open>
  Claim C1 as stated fails: a label with two suffixes loses only the last one, so
  a second application changes the result again.
\<close>

theorem clean_algorithm_name_not_idempotent:
  "clean_algorithm_name (clean_algorithm_name ''a_start1_start2'') \<noteq>
   clean_algorithm_name ''a_start1_start2''"
  by code_simp

section \<open>The solution plot\<close>

lemma bind_error_Inr [simp]: "bind_error (Inr v) f = f v"
  by (simp add: bind_error_def)

lemma bind_error_Inl [simp]: "bind_error (Inl e) f = Inl e"
  by (simp add: bind_error_def)


















section \<open>The loader\<close>

lemma load_algorithm_results_absent:
  "results_files fs (results_path i f) = None \<Longrightarrow>
     load_algorithm_results fs i f = (None, [ResultsFileNotFound (results_path i f)])"
  by (simp add: load_algorithm_results_def)

lemma load_algorithm_results_present:
  "fst (load_algorithm_results fs i f) \<noteq> None \<longleftrightarrow> results_files fs (results_path i f) \<noteq> None"
  by (simp add: load_algorithm_results_def split: option.split)

lemma map_of_load_instances:
  "map_of (fst (load_instances fs f is acc)) i =
     (if i \<in> set is \<and> fst (load_algorithm_results fs i f) \<noteq> None
      then fst (load_algorithm_results fs i f) else map_of acc i)"
proof (induction "is" arbitrary: acc)
  case Nil
  show ?case by simp
next
  case (Cons j js)
  show ?case
  proof (cases "load_algorithm_results fs j f")
    case (Pair r out)
    show ?thesis
    proof (cases r)
      case None
      with Pair Cons.IH [of acc] show ?thesis
        by (auto simp: split_beta)
    next
      case (Some d)
      with Pair Cons.IH [of "AList.update j d acc"] show ?thesis
        by (auto simp: split_beta update_conv')
    qed
  qed
qed

lemma load_instances_empty:
  "fst (load_instances fs f is []) = [] \<longleftrightarrow>
     (\<forall>i \<in> set is. results_files fs (results_path i f) = None)"
proof -
  have "fst (load_instances fs f is []) = [] \<longleftrightarrow>
      (\<forall>i. map_of (fst (load_instances fs f is [])) i = None)"
    by (metis map_of_eq_empty_iff)
  also have "\<dots> \<longleftrightarrow> (\<forall>i \<in> set is. fst (load_algorithm_results fs i f) = None)"
    by (auto simp: map_of_load_instances)
  also have "\<dots> \<longleftrightarrow> (\<forall>i \<in> set is. results_files fs (results_path i f) = None)"
    using load_algorithm_results_present [of fs _ f] by blast
  finally show ?thesis .
qed

lemma TSPReportGenerator_init_eq:
  "fst (TSPReportGenerator_init fs f requested) =
     (if fst (load_instances fs f (requested_instances requested) []) = [] then Inl ValueError
      else Inr \<lparr>algorithm_folder = f, instances = requested_instances requested,
                algorithm_data = fst (load_instances fs f (requested_instances requested) []),
                visualizations = []\<rparr>)"
  by (simp add: TSPReportGenerator_init_def load_all_algorithm_results_def
      requested_instances_def Let_def split_beta split: option.split list.split)

text \<open>
  Claim C6.  An instance whose results file is absent yields the absent result and one
  diagnostic.  The batch goes on: after the loop an instance is in the mapping exactly when
  it was requested and its results file exists, and it holds what its own load returned.
  The generator raises ValueError exactly when no requested instance has a results file;
  otherwise it holds the instances that were loaded.
\<close>

theorem absent_instances_are_skipped:
  "(results_files fs (results_path i f) = None \<longrightarrow>
      load_algorithm_results fs i f = (None, [ResultsFileNotFound (results_path i f)])) \<and>
   map_of (fst (load_all_algorithm_results fs f (Some is))) i =
     (if i \<in> set is \<and> results_files fs (results_path i f) \<noteq> None
      then fst (load_algorithm_results fs i f) else None) \<and>
   (fst (TSPReportGenerator_init fs f requested) = Inl ValueError \<longleftrightarrow>
      (\<forall>j \<in> set (requested_instances requested). results_files fs (results_path j f) = None)) \<and>
   (\<forall>g. fst (TSPReportGenerator_init fs f requested) = Inr g \<longrightarrow>
      instances g = requested_instances requested \<and>
      algorithm_data g = fst (load_all_algorithm_results fs f (Some (instances g))))"
proof (intro conjI)
  show "results_files fs (results_path i f) = None \<longrightarrow>
      load_algorithm_results fs i f = (None, [ResultsFileNotFound (results_path i f)])"
    by (simp add: load_algorithm_results_absent)
  show "map_of (fst (load_all_algorithm_results fs f (Some is))) i =
     (if i \<in> set is \<and> results_files fs (results_path i f) \<noteq> None
      then fst (load_algorithm_results fs i f) else None)"
    using load_algorithm_results_present [of fs i f]
    by (auto simp: load_all_algorithm_results_def map_of_load_instances)
  show "fst (TSPReportGenerator_init fs f requested) = Inl ValueError \<longleftrightarrow>
      (\<forall>j \<in> set (requested_instances requested). results_files fs (results_path j f) = None)"
    by (simp add: TSPReportGenerator_init_eq load_instances_empty)
  show "\<forall>g. fst (TSPReportGenerator_init fs f requested) = Inr g \<longrightarrow>
      instances g = requested_instances requested \<and>
      algorithm_data g = fst (load_all_algorithm_results fs f (Some (instances g)))"
    by (auto simp: TSPReportGenerator_init_eq load_all_algorithm_results_def split: if_splits)
qed

text \<open>
  The theorem of claim C6 on a folder that holds results for TSPA only, with the default
  instances requested: TSPB is reported and skipped, TSPA is loaded, nothing is raised.
\<close>

theorem absent_instances_are_skipped_witness:
  "results_files example_fs (results_path ''TSPB'' ''greedy'') = None \<and>
   load_algorithm_results example_fs ''TSPB'' ''greedy'' =
     (None, [ResultsFileNotFound ''results/greedy/TSPB_greedy_results.json'']) \<and>
   map_of (fst (load_all_algorithm_results example_fs ''greedy'' (Some [''TSPA'', ''TSPB''])))
     ''TSPB'' = None \<and>
   fst (TSPReportGenerator_init example_fs ''greedy'' None) \<noteq> Inl ValueError"
proof -
  have absent: "results_files example_fs (results_path ''TSPB'' ''greedy'') = None"
    by (simp add: example_fs_def results_path_def)
  have present: "results_files example_fs (results_path ''TSPA'' ''greedy'') \<noteq> None"
    by (simp add: example_fs_def)
  have "\<not> (\<forall>j \<in> set (requested_instances None).
      results_files example_fs (results_path j ''greedy'') = None)"
    using present by (simp add: requested_instances_def)
  then show ?thesis
    using absent
      absent_instances_are_skipped [of example_fs "''TSPB''" "''greedy''" "[''TSPA'', ''TSPB'']" None]
    by (simp add: results_path_def)
qed

section \<open>Exporting the best solutions\<close>

lemma best_solutions_export_Inr:
  "best_solutions v \<noteq> [] \<Longrightarrow>
     best_solutions_export folder ts i v = Inr (expected_export folder ts i v)"
  by (cases "best_solutions v")
     (auto simp: best_solutions_export_def first_value_def expected_export_def)

lemma best_solutions_export_Inl:
  "best_solutions v = [] \<Longrightarrow> best_solutions_export folder ts i v = Inl IndexError"
  by (simp add: best_solutions_export_def first_value_def)

lemma export_all_exportable:
  "list_all (exportable \<circ> snd) data \<Longrightarrow>
     export_best_solutions_data folder ts sfx data =
       (map (\<lambda>(i, d). (export_filename i sfx ts, expected_export folder ts i (the (viz d))))
          (filter (\<lambda>(i, d). viz d \<noteq> None) data), None)"
proof (induction data)
  case Nil
  show ?case by simp
next
  case (Cons p data)
  obtain i d where p: "p = (i, d)" by (cases p)
  show ?case
  proof (cases "viz d")
    case None
    with Cons p show ?thesis by simp
  next
    case (Some v)
    with Cons.prems p have "best_solutions v \<noteq> []" by (simp add: exportable_def)
    with Cons p Some show ?thesis by (simp add: best_solutions_export_Inr)
  qed
qed

lemma export_stops_at_empty_payload:
  assumes "list_all (exportable \<circ> snd) pre" "viz d = Some v" "best_solutions v = []"
  shows "export_best_solutions_data folder ts sfx (pre @ (i, d) # post) =
       (fst (export_best_solutions_data folder ts sfx pre), Some IndexError)"
  using assms(1)
proof (induction pre)
  case Nil
  show ?case using assms(2,3) by (simp add: best_solutions_export_Inl)
next
  case (Cons p pre)
  obtain j e where p: "p = (j, e)" by (cases p)
  show ?case
  proof (cases "viz e")
    case None
    with Cons p show ?thesis by simp
  next
    case (Some w)
    with Cons.prems p have "best_solutions w \<noteq> []" by (simp add: exportable_def)
    with Cons p Some show ?thesis by (simp add: best_solutions_export_Inr split_beta)
  qed
qed

text \<open>
  Claim C10.  When every instance that has a visualization payload names at least one best
  solution, the export raises nothing and writes one file per such instance, whose
  \<^verbatim>\<open>required_nodes\<close> is the number of selected nodes of the first best solution.  At
  the first instance whose payload has an empty \<^verbatim>\<open>best_solutions\<close> the export raises
  IndexError: the files of the instances before it are written, none for this instance or
  for a later one.
\<close>

theorem export_requires_a_best_solution:
  "(list_all (exportable \<circ> snd) data \<longrightarrow>
      export_best_solutions_data folder ts sfx data =
        (map (\<lambda>(i, d). (export_filename i sfx ts, expected_export folder ts i (the (viz d))))
           (filter (\<lambda>(i, d). viz d \<noteq> None) data), None)) \<and>
   (list_all (exportable \<circ> snd) pre \<and> viz d = Some v \<and> best_solutions v = [] \<longrightarrow>
      snd (export_best_solutions_data folder ts sfx (pre @ (i, d) # post)) = Some IndexError \<and>
      fst (export_best_solutions_data folder ts sfx (pre @ (i, d) # post)) =
        map (\<lambda>(i, d). (export_filename i sfx ts, expected_export folder ts i (the (viz d))))
          (filter (\<lambda>(i, d). viz d \<noteq> None) pre))"
  using export_all_exportable [of data folder ts sfx]
    export_all_exportable [of pre folder ts sfx]
    export_stops_at_empty_payload [of pre d v folder ts sfx i post]
  by simp

text \<open>
  The theorem of claim C10 on TSPA with one best solution (three selected nodes), and on
  TSPA followed by a TSPB whose payload has no best solution.
\<close>

theorem export_requires_a_best_solution_witness:
  "list_all (exportable \<circ> snd) example_data \<and>
   snd (export_best_solutions_data ''greedy'' ''20250101_000000'' [] example_data) = None \<and>
   map (\<lambda>(name, ex). (name, required_nodes ex))
     (fst (export_best_solutions_data ''greedy'' ''20250101_000000'' [] example_data)) =
     [(''TSPA_best_solutions_20250101_000000.json'', 3)] \<and>
   snd (export_best_solutions_data ''greedy'' ''20250101_000000'' [] empty_payload_data) =
     Some IndexError \<and>
   map fst (fst (export_best_solutions_data ''greedy'' ''20250101_000000'' [] empty_payload_data)) =
     [''TSPA_best_solutions_20250101_000000.json'']"
proof -
  have ok: "list_all (exportable \<circ> snd) example_data"
    by (simp add: example_data_def exportable_def example_viz_def)
  have bad: "viz \<lparr>df = example_results,
                  viz = Some \<lparr>nodes = nodes example_viz, best_solutions = []\<rparr>,
                  summary_data = None\<rparr> = Some \<lparr>nodes = nodes example_viz, best_solutions = []\<rparr> \<and>
             best_solutions \<lparr>nodes = nodes example_viz, best_solutions = []\<rparr> = []"
    by simp
  show ?thesis
    using ok bad
      export_requires_a_best_solution [of example_data "''greedy''" "''20250101_000000''" "[]"
        example_data
        "\<lparr>df = example_results,
          viz = Some \<lparr>nodes = nodes example_viz, best_solutions = []\<rparr>,
          summary_data = None\<rparr>"
        "\<lparr>nodes = nodes example_viz, best_solutions = []\<rparr>" "''TSPB''" "[]"]
    by (simp add: empty_payload_data_def)
       (simp add: example_data_def expected_export_def export_filename_def example_viz_def
          example_solution_def)
qed

section \<open>The comparison tables\<close>

lemma set_unique [simp]: "set (unique vs) = set vs"
  by (induction vs rule: unique.induct) auto

lemma distinct_unique [simp]: "distinct (unique vs)"
  by (induction vs rule: unique.induct) auto

lemma cell_at_Nil [simp]: "cell_at [] a i = None"
  by (simp add: cell_at_def)




















section \<open>Rankings\<close>

lemma group_not_empty:
  "a \<in> set (map (canon \<circ> algorithm) d) \<Longrightarrow> group_of canon a d \<noteq> []"
  by (auto simp: group_of_def filter_empty_conv)

lemma ranking_data_Inr:
  "list_all (\<lambda>p. df (snd p) \<noteq> []) data \<Longrightarrow>
     ranking_data data = Inr (concat (map (\<lambda>p. instance_rows (fst p) (df (snd p))) data))"
  by (induction data)
     (auto simp: column_def instance_rows_def base_algorithms_def comp_def)

lemma Instance_instance_rows: "r \<in> set (instance_rows i d) \<Longrightarrow> Instance r = i"
  by (auto simp: instance_rows_def ranking_entry_def Let_def)

lemma instance_rows_not_empty: "d \<noteq> [] \<Longrightarrow> instance_rows i d \<noteq> []"
  by (cases d) (simp_all add: instance_rows_def base_algorithms_def)

lemma unique_block:
  assumes "\<forall>v \<in> set vs. v = a" "a \<notin> set ws" "vs \<noteq> []"
  shows "unique (vs @ ws) = a # unique ws"
proof -
  obtain vs' where vs: "vs = a # vs'" using assms(1,3) by (cases vs) auto
  have "filter (\<lambda>w. w \<noteq> a) (vs' @ ws) = ws"
    using assms(1,2) by (auto simp: vs filter_empty_conv filter_id_conv)
  then show ?thesis by (simp add: vs)
qed

lemma Instance_concat:
  "Instance ` set (concat (map (\<lambda>p. instance_rows (fst p) (df (snd p))) data)) \<subseteq> fst ` set data"
  by (auto dest: Instance_instance_rows)

lemma unique_instances:
  assumes "distinct (map fst data)" "list_all (\<lambda>p. df (snd p) \<noteq> []) data"
  shows "unique (map Instance (concat (map (\<lambda>p. instance_rows (fst p) (df (snd p))) data))) =
     map fst data"
  using assms
proof (induction data)
  case Nil
  show ?case by simp
next
  case (Cons p data)
  let ?block = "map Instance (instance_rows (fst p) (df (snd p)))"
  let ?rest = "map Instance (concat (map (\<lambda>p. instance_rows (fst p) (df (snd p))) data))"
  have "\<forall>v \<in> set ?block. v = fst p" by (auto dest: Instance_instance_rows)
  moreover have "fst p \<notin> set ?rest"
    using Cons.prems(1) Instance_concat [of data] by auto
  moreover have "?block \<noteq> []"
    using Cons.prems(2) by (simp add: instance_rows_not_empty)
  ultimately have "unique (?block @ ?rest) = fst p # unique ?rest" by (rule unique_block)
  then show ?case using Cons by simp
qed

lemma filter_instance:
  assumes "distinct (map fst data)" "p \<in> set data"
  shows "filter (\<lambda>r. Instance r = fst p)
           (concat (map (\<lambda>p. instance_rows (fst p) (df (snd p))) data)) =
         instance_rows (fst p) (df (snd p))"
  using assms
proof (induction data)
  case Nil
  then show ?case by simp
next
  case (Cons q data)
  let ?rest = "concat (map (\<lambda>p. instance_rows (fst p) (df (snd p))) data)"
  show ?case
  proof (cases "p = q")
    case True
    have "fst q \<notin> Instance ` set ?rest"
      using Cons.prems(1) Instance_concat [of data] by auto
    then have "filter (\<lambda>r. Instance r = fst q) ?rest = []"
      unfolding filter_empty_conv by (metis imageI)
    moreover have "filter (\<lambda>r. Instance r = fst q) (instance_rows (fst q) (df (snd q))) =
        instance_rows (fst q) (df (snd q))"
      by (auto simp: filter_id_conv dest: Instance_instance_rows)
    ultimately show ?thesis using True by simp
  next
    case False
    then have mem: "p \<in> set data" using Cons.prems(2) by simp
    then have "fst p \<in> fst ` set data" by (rule imageI)
    moreover have "fst q \<notin> fst ` set data" using Cons.prems(1) by simp
    ultimately have "fst p \<noteq> fst q" by metis
    then have "filter (\<lambda>r. Instance r = fst p) (instance_rows (fst q) (df (snd q))) = []"
      by (auto simp: filter_empty_conv dest: Instance_instance_rows)
    then show ?thesis using Cons.IH [OF _ mem] Cons.prems(1) by simp
  qed
qed

lemma create_performance_ranking_Inr:
  assumes "distinct (map fst data)" "list_all (\<lambda>p. df (snd p) \<noteq> []) data" "data \<noteq> []"
  shows "create_performance_ranking data =
     Inr (concat (map (\<lambda>p. instance_rows (fst p) (df (snd p))) data),
          map (\<lambda>p. (fst p, instance_ranking (instance_rows (fst p) (df (snd p))))) data)"
proof -
  let ?frame = "concat (map (\<lambda>p. instance_rows (fst p) (df (snd p))) data)"
  obtain p rest where data: "data = p # rest" using assms(3) by (cases data) auto
  have "instance_rows (fst p) (df (snd p)) \<noteq> []"
    using assms(2) by (simp add: data instance_rows_not_empty)
  then have ne: "?frame \<noteq> []" by (simp add: data)
  have "map (\<lambda>i. (i, instance_ranking (filter (\<lambda>r. Instance r = i) ?frame))) (map fst data) =
      map (\<lambda>p. (fst p, instance_ranking (instance_rows (fst p) (df (snd p))))) data"
    by (simp add: filter_instance [OF assms(1)] comp_def)
  then show ?thesis
    using ne
    by (simp add: create_performance_ranking_def ranking_data_Inr [OF assms(2)]
        unique_instances [OF assms(1,2)])
qed

lemma instance_ranking_props:
  "map fst (instance_ranking rows) = [1..<length rows + 1]"
  "map snd (instance_ranking rows) = sort_key Mean_Objective rows"
  "length (instance_ranking rows) = length rows"
  by (simp_all add: instance_ranking_def sort_values_def Let_def del: upt_Suc)

lemma sorted_hd_least:
  "sorted (map f vs) \<Longrightarrow> v \<in> set vs \<Longrightarrow> f (hd vs) \<le> f v"
  by (cases vs) auto

lemma instance_ranking_sorted:
  fixes i d
  defines "rk \<equiv> instance_ranking (instance_rows i d)"
  shows "map fst rk = [1..<length rk + 1] \<and>
     sorted (map (\<lambda>p. Mean_Objective (snd p)) rk) \<and>
     mset (map (\<lambda>p. Algorithm (snd p)) rk) = mset (base_algorithms d) \<and>
     (\<forall>p \<in> set rk.
        Mean_Objective (snd p) = group_mean d (Algorithm (snd p)) \<and>
        Std_Objective (snd p) =
          series_std (map objective_value (group_of base_algorithm (Algorithm (snd p)) d)) \<and>
        Mean_Objective (snd (hd rk)) \<le> Mean_Objective (snd p))"
proof -
  let ?rows = "instance_rows i d"
  have fst: "map fst rk = [1..<length rk + 1]"
    unfolding rk_def by (simp only: instance_ranking_props(1,3))
  have snd: "map snd rk = sort_key Mean_Objective ?rows"
    unfolding rk_def by (rule instance_ranking_props(2))
  have "map (\<lambda>p. Mean_Objective (snd p)) rk = map Mean_Objective (map snd rk)"
    by (simp add: comp_def)
  then have sorted: "sorted (map (\<lambda>p. Mean_Objective (snd p)) rk)"
    by (simp only: snd sorted_sort_key)
  have "map (\<lambda>p. Algorithm (snd p)) rk = map Algorithm (map snd rk)"
    by (simp add: comp_def)
  then have "mset (map (\<lambda>p. Algorithm (snd p)) rk) = mset (map Algorithm ?rows)"
    by (simp only: snd mset_map mset_sort)
  then have names: "mset (map (\<lambda>p. Algorithm (snd p)) rk) = mset (base_algorithms d)"
    by (simp add: instance_rows_def ranking_entry_def Let_def comp_def)
  have each: "Mean_Objective (snd p) = group_mean d (Algorithm (snd p)) \<and>
        Std_Objective (snd p) =
          series_std (map objective_value (group_of base_algorithm (Algorithm (snd p)) d)) \<and>
        Mean_Objective (snd (hd rk)) \<le> Mean_Objective (snd p)" if "p \<in> set rk" for p
  proof -
    have "snd p \<in> set (map snd rk)" using that by simp
    then have "snd p \<in> set ?rows" by (simp only: snd set_sort)
    then obtain a where a: "snd p = ranking_entry i d a" by (auto simp: instance_rows_def)
    have "(\<lambda>p. Mean_Objective (snd p)) (hd rk) \<le> (\<lambda>p. Mean_Objective (snd p)) p"
      using sorted that by (rule sorted_hd_least)
    then show ?thesis by (simp add: a group_mean_def ranking_entry_def Let_def)
  qed
  show ?thesis using fst sorted names each by blast
qed

text \<open>
  Claim C4, as the code has it.  For a dataset of one or more instances with distinct
  names and at least one record each, every instance gets its ranking: one row per base
  algorithm, carrying the mean and the standard deviation of its objective values, in
  ascending order of the mean and numbered 1, 2, ..., so rank 1 has the least mean.
  Nothing but the mean is compared.
\<close>

theorem ranking_sorted_by_mean:
  assumes "distinct (map fst data)" "list_all (\<lambda>p. df (snd p) \<noteq> []) data" "data \<noteq> []"
  shows "\<exists>ranking_df shown. create_performance_ranking data = Inr (ranking_df, shown) \<and>
     map fst shown = map fst data \<and>
     (\<forall>p \<in> set data. \<exists>rk. map_of shown (fst p) = Some rk \<and>
        map fst rk = [1..<length rk + 1] \<and>
        sorted (map (\<lambda>q. Mean_Objective (snd q)) rk) \<and>
        mset (map (\<lambda>q. Algorithm (snd q)) rk) = mset (base_algorithms (df (snd p))) \<and>
        (\<forall>q \<in> set rk.
           Mean_Objective (snd q) = group_mean (df (snd p)) (Algorithm (snd q)) \<and>
           Std_Objective (snd q) =
             series_std (map objective_value
               (group_of base_algorithm (Algorithm (snd q)) (df (snd p)))) \<and>
           Mean_Objective (snd (hd rk)) \<le> Mean_Objective (snd q)))"
proof -
  let ?shown = "map (\<lambda>p. (fst p, instance_ranking (instance_rows (fst p) (df (snd p))))) data"
  have keys: "map fst ?shown = map fst data" by (simp add: comp_def)
  have at: "map_of ?shown (fst p) = Some (instance_ranking (instance_rows (fst p) (df (snd p))))"
    if "p \<in> set data" for p
  proof -
    have "distinct (map fst ?shown)" using assms(1) by (simp only: keys)
    moreover have "(fst p, instance_ranking (instance_rows (fst p) (df (snd p)))) \<in> set ?shown"
      using that by auto
    ultimately show ?thesis by (rule map_of_is_SomeI)
  qed
  show ?thesis
  proof (intro exI conjI ballI)
    show "create_performance_ranking data =
        Inr (concat (map (\<lambda>p. instance_rows (fst p) (df (snd p))) data), ?shown)"
      by (rule create_performance_ranking_Inr [OF assms])
    show "map fst ?shown = map fst data" by (rule keys)
    fix p assume "p \<in> set data"
    then show "map_of ?shown (fst p) = Some (instance_ranking (instance_rows (fst p) (df (snd p))))"
      by (rule at)
  qed (use instance_ranking_sorted in blast)+
qed

lemma example_names:
  "map (base_algorithm \<circ> algorithm) example_results = [''greedy'', ''greedy'', ''regret'']"
  by code_simp

lemma example_groups:
  "map objective_value (group_of base_algorithm ''greedy'' example_results) = [100, 90]"
  "map objective_value (group_of base_algorithm ''regret'' example_results) = [110]"
  by code_simp+

lemma example_means: "mean [100, 90] = 95" "mean [110] = 110"
  by (simp_all add: mean_def)

lemma example_instance_rows:
  "map (\<lambda>r. (Algorithm r, Mean_Objective r)) (instance_rows ''TSPA'' example_results) =
     [(''greedy'', 95), (''regret'', 110)]"
proof -
  have "base_algorithms example_results = [''greedy'', ''regret'']"
    by (simp add: base_algorithms_def example_names)
  then show ?thesis
    by (simp add: instance_rows_def ranking_entry_def Let_def example_groups example_means)
qed

lemma example_ranking:
  "map (\<lambda>q. (fst q, Algorithm (snd q), Mean_Objective (snd q)))
     (instance_ranking (instance_rows ''TSPA'' example_results)) =
     [(1, ''greedy'', 95), (2, ''regret'', 110)]"
proof -
  obtain r1 r2 where rows: "instance_rows ''TSPA'' example_results = [r1, r2]"
    "Algorithm r1 = ''greedy''" "Mean_Objective r1 = 95"
    "Algorithm r2 = ''regret''" "Mean_Objective r2 = 110"
    using example_instance_rows by (auto simp: map_eq_Cons_conv)
  show ?thesis
    by (simp add: rows instance_ranking_def sort_values_def)
qed

text \<open>
  The theorem of claim C4 on the three records of the example: greedy (mean 95) at rank 1,
  regret (mean 110) at rank 2.
\<close>

theorem ranking_sorted_by_mean_witness:
  "distinct (map fst example_data) \<and> list_all (\<lambda>p. df (snd p) \<noteq> []) example_data \<and>
   example_data \<noteq> [] \<and>
   (\<exists>ranking_df rk. create_performance_ranking example_data = Inr (ranking_df, [(''TSPA'', rk)]) \<and>
      map fst rk = [1..<length rk + 1] \<and>
      sorted (map (\<lambda>q. Mean_Objective (snd q)) rk) \<and>
      map (\<lambda>q. (fst q, Algorithm (snd q), Mean_Objective (snd q))) rk =
        [(1, ''greedy'', 95), (2, ''regret'', 110)])"
proof -
  have pre: "distinct (map fst example_data)" "list_all (\<lambda>p. df (snd p) \<noteq> []) example_data"
    "example_data \<noteq> []"
    by (simp_all add: example_data_def example_results_def)
  obtain ranking_df shown where res:
    "create_performance_ranking example_data = Inr (ranking_df, shown)"
    "map fst shown = map fst example_data"
    "\<forall>p \<in> set example_data. \<exists>rk. map_of shown (fst p) = Some rk \<and>
        map fst rk = [1..<length rk + 1] \<and>
        sorted (map (\<lambda>q. Mean_Objective (snd q)) rk)"
    using ranking_sorted_by_mean [OF pre] by blast
  from res(2) obtain rk where shown: "shown = [(''TSPA'', rk)]"
    by (cases shown) (auto simp: example_data_def)
  have props: "map fst rk = [1..<length rk + 1]" "sorted (map (\<lambda>q. Mean_Objective (snd q)) rk)"
    using res(3) by (simp_all add: shown example_data_def)
  have "create_performance_ranking example_data =
      Inr (instance_rows ''TSPA'' example_results,
           [(''TSPA'', instance_ranking (instance_rows ''TSPA'' example_results))])"
    using create_performance_ranking_Inr [OF pre] by (simp add: example_data_def)
  then have rk: "rk = instance_ranking (instance_rows ''TSPA'' example_results)"
    using res(1) by (simp add: shown)
  have shownrows: "map (\<lambda>q. (fst q, Algorithm (snd q), Mean_Objective (snd q))) rk =
        [(1, ''greedy'', 95), (2, ''regret'', 110)]"
    by (simp only: rk example_ranking)
  have first: "create_performance_ranking example_data = Inr (ranking_df, [(''TSPA'', rk)])"
    using res(1) by (simp add: shown)
  show ?thesis
    using pre first props shownrows by (intro conjI exI) assumption+
qed

lemma tie_names: "map (base_algorithm \<circ> algorithm) tie_results = [''b'', ''b'', ''a'', ''a'']"
  by code_simp

lemma tie_groups:
  "map objective_value (group_of base_algorithm ''b'' tie_results) = [4, 6]"
  "map objective_value (group_of base_algorithm ''a'' tie_results) = [4, 6]"
  "map computation_time_ms (group_of base_algorithm ''b'' tie_results) = [2, 2]"
  "map computation_time_ms (group_of base_algorithm ''a'' tie_results) = [2, 2]"
  "length (group_of base_algorithm ''b'' tie_results) = 2"
  "length (group_of base_algorithm ''a'' tie_results) = 2"
  by code_simp+

lemma stats46: "mean [4, 6] = 5" "series_min [4, 6] = 4" "series_max [4, 6] = 6"
  "series_std [4, 6] = Finite (sqrt 2)" "mean [2, 2] = 2"
  by (simp_all add: mean_def series_min_def series_max_def series_std_def power2_eq_square)

text \<open>
  Claim C4 as stated fails.  The algorithms \<^verbatim>\<open>b\<close> and \<^verbatim>\<open>a\<close> have equal means and equal
  standard deviations, so the name should decide and put \<^verbatim>\<open>a\<close> first; the ranking has
  \<^verbatim>\<open>b\<close> at rank 1.
\<close>

theorem ranking_ignores_name_on_ties:
  "create_performance_ranking tie_data =
     Inr ([tie_row ''b'', tie_row ''a''], [(''TSPA'', [(1, tie_row ''b''), (2, tie_row ''a'')])]) \<and>
   \<not> ranked_before (tie_row ''b'') (tie_row ''a'') \<and>
   ranked_before (tie_row ''a'') (tie_row ''b'')"
proof -
  have pre: "distinct (map fst tie_data)" "list_all (\<lambda>p. df (snd p) \<noteq> []) tie_data"
    "tie_data \<noteq> []"
    by (simp_all add: tie_data_def tie_results_def)
  have rows: "instance_rows ''TSPA'' tie_results = [tie_row ''b'', tie_row ''a'']"
    by (simp add: instance_rows_def base_algorithms_def ranking_entry_def Let_def tie_names
        tie_groups stats46 tie_row_def)
  have "instance_ranking [tie_row ''b'', tie_row ''a''] = [(1, tie_row ''b''), (2, tie_row ''a'')]"
    by (simp add: instance_ranking_def sort_values_def tie_row_def)
  then have "create_performance_ranking tie_data =
     Inr ([tie_row ''b'', tie_row ''a''], [(''TSPA'', [(1, tie_row ''b''), (2, tie_row ''a'')])])"
    using create_performance_ranking_Inr [OF pre] by (simp add: tie_data_def rows)
  moreover have "\<not> ranked_before (tie_row ''b'') (tie_row ''a'')"
    "ranked_before (tie_row ''a'') (tie_row ''b'')"
    by (simp_all add: ranked_before_def tie_row_def)
  ultimately show ?thesis by simp
qed

section \<open>Improvement over the best algorithm\<close>

lemma improvement_nonzero:
  "m \<noteq> 0 \<Longrightarrow> improvement b m = Finite ((m - b) / m * 100)"
  by (simp add: improvement_def)

lemma group_means_entries:
  "p \<in> set (group_means d) \<Longrightarrow> snd p = group_mean d (fst p)"
  by (auto simp: group_means_def group_mean_def)

lemma group_means_names:
  "mset (map fst (group_means d)) = mset (remdups (map (base_algorithm \<circ> algorithm) d))"
  by (simp add: group_means_def comp_def)

text \<open>
  Claim C8.  For a frame with at least one record the analysis sorts the mean objective
  values of the base algorithms, takes the first as the best, and gives every other
  algorithm exactly once the percentage
  \<open>(algorithm_mean - best_mean) / algorithm_mean * 100\<close>: the divisor is the mean of
  the algorithm itself, which is at least the best mean.
\<close>

theorem improvement_divides_by_own_mean:
  assumes "d \<noteq> []"
  shows "\<exists>best others.
     improvement_over_best d =
       Inr (map (\<lambda>a. (a, improvement (group_mean d best) (group_mean d a))) others) \<and>
     mset (best # others) = mset (remdups (map (base_algorithm \<circ> algorithm) d)) \<and>
     (\<forall>a \<in> set others.
        group_mean d best \<le> group_mean d a \<and>
        (group_mean d a \<noteq> 0 \<longrightarrow>
           improvement (group_mean d best) (group_mean d a) =
             Finite ((group_mean d a - group_mean d best) / group_mean d a * 100)))"
proof -
  let ?L = "sort_key snd (group_means d)"
  have entries: "snd p = group_mean d (fst p)" if "p \<in> set ?L" for p
    using that group_means_entries [of p d] by simp
  have names: "mset (map fst ?L) = mset (remdups (map (base_algorithm \<circ> algorithm) d))"
    using group_means_names [of d] by simp
  have "remdups (map (base_algorithm \<circ> algorithm) d) \<noteq> []" using assms by simp
  then have "?L \<noteq> []" using names by (metis map_is_Nil_conv mset_zero_iff)
  then obtain p rest where L: "?L = p # rest" by (cases ?L) auto
  have sorted: "sorted (map snd (p # rest))"
    using sorted_sort_key [of snd "group_means d"] by (simp only: L)
  have p: "snd p = group_mean d (fst p)" using entries [of p] by (simp add: L)
  have rest: "snd q = group_mean d (fst q)" if "q \<in> set rest" for q
    using entries [of q] that by (simp add: L)
  have "improvement_over_best d =
      Inr (map (\<lambda>(a, mean_val). (a, improvement (snd p) mean_val)) rest)"
    using assms L
    by (cases p) (simp add: improvement_over_best_def column_def sort_values_def)
  also have "map (\<lambda>(a, mean_val). (a, improvement (snd p) mean_val)) rest =
      map (\<lambda>a. (a, improvement (group_mean d (fst p)) (group_mean d a))) (map fst rest)"
    using rest by (auto simp: p split_beta)
  finally have result: "improvement_over_best d =
      Inr (map (\<lambda>a. (a, improvement (group_mean d (fst p)) (group_mean d a))) (map fst rest))" .
  have perm: "mset (fst p # map fst rest) = mset (remdups (map (base_algorithm \<circ> algorithm) d))"
    using names by (simp add: L)
  have least: "group_mean d (fst p) \<le> group_mean d a" if "a \<in> set (map fst rest)" for a
  proof -
    from that have "\<exists>q. q \<in> set rest \<and> a = fst q" by (simp add: image_iff) force
    then obtain q where q: "q \<in> set rest" "a = fst q" by blast
    have "snd p \<le> snd q" using sorted q(1) by simp
    then show ?thesis using p rest [OF q(1)] q(2) by simp
  qed
  show ?thesis
    using result perm least improvement_nonzero
    by (intro exI [of _ "fst p"] exI [of _ "map fst rest"]) blast
qed

lemma example_group_means:
  "group_means example_results = [(''greedy'', 95), (''regret'', 110)]"
proof -
  have "sort (remdups (map (base_algorithm \<circ> algorithm) example_results)) = [''greedy'', ''regret'']"
    by code_simp
  then show ?thesis
    by (simp add: group_means_def example_groups example_means)
qed

text \<open>
  The theorem of claim C8 on the three records of the example: regret (mean 110) against
  the best mean 95 gets \<open>15 / 110 * 100\<close> percent.
\<close>

theorem improvement_divides_by_own_mean_witness:
  "example_results \<noteq> [] \<and>
   improvement_over_best example_results = Inr [(''regret'', Finite (15 / 110 * 100))] \<and>
   (\<exists>best others.
      improvement_over_best example_results =
        Inr (map (\<lambda>a. (a, improvement (group_mean example_results best)
                            (group_mean example_results a))) others) \<and>
      mset (best # others) = mset (remdups (map (base_algorithm \<circ> algorithm) example_results)))"
proof -
  have ne: "example_results \<noteq> []" by (simp add: example_results_def)
  obtain best others where bo:
    "improvement_over_best example_results =
        Inr (map (\<lambda>a. (a, improvement (group_mean example_results best)
                            (group_mean example_results a))) others)"
    "mset (best # others) = mset (remdups (map (base_algorithm \<circ> algorithm) example_results))"
    using improvement_divides_by_own_mean [OF ne] by blast
  have "improvement_over_best example_results = Inr [(''regret'', Finite (15 / 110 * 100))]"
    using ne
    by (simp add: improvement_over_best_def column_def sort_values_def example_group_means
        improvement_def)
  with ne bo show ?thesis by blast
qed

section \<open>The coefficient of variation\<close>

lemma series_std_sample: "2 \<le> length vs \<Longrightarrow> series_std vs = Finite (sample_std vs)"
  by (simp add: series_std_def sample_std_def)

lemma sample_std_nonneg: "0 \<le> sample_std vs"
proof -
  have "0 \<le> sum_list (map (\<lambda>v. (v - mean vs)\<^sup>2) vs)"
    by (rule sum_list_nonneg) auto
  then show ?thesis by (simp add: sample_std_def)
qed

lemma sum_squares_zero:
  fixes vs :: "real list"
  shows "sum_list (map (\<lambda>v. v\<^sup>2) vs) = 0 \<longleftrightarrow> list_all (\<lambda>v. v = 0) vs"
  by (subst sum_list_nonneg_eq_0_iff) (auto simp: list_all_iff)

lemma sample_std_zero_mean:
  assumes "2 \<le> length vs" "mean vs = 0"
  shows "sample_std vs = 0 \<longleftrightarrow> list_all (\<lambda>v. v = 0) vs"
proof -
  have "real (length vs - 1) \<noteq> 0" using assms(1) by simp
  then show ?thesis
    using sum_squares_zero [of vs] by (simp add: sample_std_def assms(2))
qed

text \<open>
  Claim C5, as the code has it.  A single value has no standard deviation and its
  coefficient of variation is not-a-number.  For two or more values the coefficient is
  \<open>std / mean * 100\<close> when the mean is not zero; when the mean is zero it is
  not-a-number if the standard deviation is zero too (all values are zero) and plus
  infinity otherwise.  The computation raises nothing.
\<close>

theorem cv_percent_at_mean_zero:
  "(length vs < 2 \<longrightarrow> cv_percent (series_statistics vs) = NaN) \<and>
   (2 \<le> length vs \<and> mean vs \<noteq> 0 \<longrightarrow>
      cv_percent (series_statistics vs) = Finite (sample_std vs / mean vs * 100)) \<and>
   (2 \<le> length vs \<and> mean vs = 0 \<and> list_all (\<lambda>v. v = 0) vs \<longrightarrow>
      cv_percent (series_statistics vs) = NaN) \<and>
   (2 \<le> length vs \<and> mean vs = 0 \<and> \<not> list_all (\<lambda>v. v = 0) vs \<longrightarrow>
      cv_percent (series_statistics vs) = PosInf)"
proof (intro conjI impI)
  show "cv_percent (series_statistics vs) = NaN" if "length vs < 2"
    using that by (simp add: series_statistics_def series_std_def)
  show "cv_percent (series_statistics vs) = Finite (sample_std vs / mean vs * 100)"
    if "2 \<le> length vs \<and> mean vs \<noteq> 0"
    using that by (simp add: series_statistics_def series_std_sample)
  show "cv_percent (series_statistics vs) = NaN"
    if "2 \<le> length vs \<and> mean vs = 0 \<and> list_all (\<lambda>v. v = 0) vs"
    using that sample_std_zero_mean [of vs]
    by (simp add: series_statistics_def series_std_sample)
  show "cv_percent (series_statistics vs) = PosInf"
    if "2 \<le> length vs \<and> mean vs = 0 \<and> \<not> list_all (\<lambda>v. v = 0) vs"
  proof -
    have "sample_std vs \<noteq> 0" using that sample_std_zero_mean [of vs] by simp
    then have "0 < sample_std vs" using sample_std_nonneg [of vs] by simp
    then show ?thesis using that by (simp add: series_statistics_def series_std_sample)
  qed
qed

text \<open>
  The theorem of claim C5 on the objective values 100 and 90 (mean 95, standard deviation
  \<open>sqrt 50\<close>) and on the values -1, 0, 1 (mean zero).
\<close>

theorem cv_percent_at_mean_zero_witness:
  "2 \<le> length [100, 90 :: real] \<and> mean [100, 90] \<noteq> 0 \<and>
   cv_percent (series_statistics [100, 90]) = Finite (sqrt 50 / 95 * 100) \<and>
   2 \<le> length [-1, 0, 1 :: real] \<and> mean [-1, 0, 1] = 0 \<and>
   \<not> list_all (\<lambda>v. v = 0) [-1, 0, 1 :: real] \<and>
   cv_percent (series_statistics [-1, 0, 1]) = PosInf"
proof -
  have a: "2 \<le> length [100, 90 :: real] \<and> mean [100, 90] \<noteq> 0"
    by (simp add: mean_def)
  have b: "2 \<le> length [-1, 0, 1 :: real] \<and> mean [-1, 0, 1] = 0 \<and>
      \<not> list_all (\<lambda>v. v = 0) [-1, 0, 1 :: real]"
    by (simp add: mean_def)
  have s: "sample_std [100, 90] = sqrt 50"
    by (simp add: sample_std_def mean_def power2_eq_square)
  have m: "mean [100, 90] = 95" by (simp add: mean_def)
  from a cv_percent_at_mean_zero [of "[100, 90]"]
  have "cv_percent (series_statistics [100, 90]) = Finite (sample_std [100, 90] / mean [100, 90] * 100)"
    by blast
  then have c: "cv_percent (series_statistics [100, 90]) = Finite (sqrt 50 / 95 * 100)"
    by (simp only: s m)
  from b cv_percent_at_mean_zero [of "[-1, 0, 1]"]
  have d: "cv_percent (series_statistics [-1, 0, 1]) = PosInf" by blast
  from a b c d show ?thesis by blast
qed

text \<open>
  Claim C5 as stated fails: the values -1, 0, 1 have the mean zero and the standard
  deviation 1, and their coefficient of variation is plus infinity, not not-a-number.
\<close>

theorem cv_percent_infinite:
  "stat_mean (series_statistics [-1, 0, 1]) = Finite 0 \<and>
   stat_std (series_statistics [-1, 0, 1]) = Finite 1 \<and>
   cv_percent (series_statistics [-1, 0, 1]) = PosInf"
  by (simp add: series_statistics_def series_std_def mean_def power2_eq_square)

section \<open>The frames that the exporter writes to\<close>

lemma assign_base_algorithm_Inr:
  assumes "heap_cells h a = Some f" "frame_rows f \<noteq> []"
  shows "assign_base_algorithm a h =
     Inr (h\<lparr>heap_cells := (heap_cells h)(a \<mapsto>
            f\<lparr>base_algorithm_column := Some (map (base_algorithm \<circ> algorithm) (frame_rows f))\<rparr>)\<rparr>)"
  using assms by (simp add: assign_base_algorithm_def lookup_def column_def)

lemma update_new_key: "k \<notin> fst ` set al \<Longrightarrow> AList.update k v al = al @ [(k, v)]"
  by (induction al) auto

lemma fold_update_distinct:
  "distinct names \<Longrightarrow> set names \<inter> fst ` set acc = {} \<Longrightarrow>
     fold (\<lambda>n. AList.update n (f n)) names acc = acc @ map (\<lambda>n. (n, f n)) names"
proof (induction names arbitrary: acc)
  case Nil
  show ?case by simp
next
  case (Cons n names)
  have "AList.update n (f n) acc = acc @ [(n, f n)]"
    using Cons.prems(2) by (intro update_new_key) auto
  moreover have "set names \<inter> fst ` set (acc @ [(n, f n)]) = {}"
    using Cons.prems by auto
  ultimately show ?case using Cons.IH [of "acc @ [(n, f n)]"] Cons.prems(1) by simp
qed

lemma export_statistics_instance_Inr:
  assumes "heap_cells h a = Some f" "frame_rows f \<noteq> []"
  shows "export_statistics_instance a h =
     Inr ((map (\<lambda>name. (name, series_statistics
                  (map objective_value (group_of base_algorithm name (frame_rows f)))))
             (unique (map (base_algorithm \<circ> algorithm) (frame_rows f))),
           f\<lparr>base_algorithm_column := Some (map (base_algorithm \<circ> algorithm) (frame_rows f))\<rparr>),
          h\<lparr>heap_cells := (heap_cells h)(a \<mapsto>
            f\<lparr>base_algorithm_column := Some (map (base_algorithm \<circ> algorithm) (frame_rows f))\<rparr>)\<rparr>)"
proof -
  have "fold (\<lambda>name. AList.update name (series_statistics
                  (map objective_value (group_of base_algorithm name (frame_rows f)))))
          (unique (map (base_algorithm \<circ> algorithm) (frame_rows f))) [] =
        [] @ map (\<lambda>name. (name, series_statistics
                  (map objective_value (group_of base_algorithm name (frame_rows f)))))
          (unique (map (base_algorithm \<circ> algorithm) (frame_rows f)))"
    by (rule fold_update_distinct) simp_all
  then show ?thesis
    by (simp add: export_statistics_instance_def assign_base_algorithm_Inr [OF assms] lookup_def)
qed

lemma normalize_copy_Inr:
  assumes "heap_cells h a = Some f" "frame_rows f \<noteq> []" "a < next_address h"
  shows "\<exists>h'. normalize_copy a h = Inr (next_address h, h') \<and> heap_cells h' a = Some f \<and>
     heap_cells h' (next_address h) =
       Some (f\<lparr>base_algorithm_column := Some (map (base_algorithm \<circ> algorithm) (frame_rows f))\<rparr>)"
proof -
  let ?h1 = "h\<lparr>heap_cells := (heap_cells h)(next_address h \<mapsto> f), next_address := next_address h + 1\<rparr>"
  have copy: "frame_copy a h = Inr (next_address h, ?h1)"
    using assms(1) by (simp add: frame_copy_def lookup_def)
  have "heap_cells ?h1 (next_address h) = Some f" by simp
  from assign_base_algorithm_Inr [OF this assms(2)] copy assms(1,3)
  show ?thesis by (simp add: normalize_copy_def)
qed

text \<open>
  Claim C3 at the two functions of the exporter.  When the frame of the caller (at
  address \<open>a\<close>, with at least one record) is handed to
  \<^verbatim>\<open>export_statistics_summary\<close> or to \<^verbatim>\<open>_create_and_save_performance_plot\<close>, it comes
  back with a \<^verbatim>\<open>base_algorithm\<close> column: the frame of the caller has changed.  The
  functions that copy first leave it as it was and write the column to the copy.
\<close>

theorem exporter_writes_to_the_frame_of_the_caller:
  assumes "heap_cells h a = Some f" "frame_rows f \<noteq> []" "a < next_address h"
  shows
    "(\<exists>out h'. export_statistics_instance a h = Inr (out, h') \<and>
        heap_cells h' a =
          Some (f\<lparr>base_algorithm_column := Some (map (base_algorithm \<circ> algorithm) (frame_rows f))\<rparr>)) \<and>
     (\<exists>h'. create_and_save_performance_plot a h = Inr h' \<and>
        heap_cells h' a =
          Some (f\<lparr>base_algorithm_column := Some (map (base_algorithm \<circ> algorithm) (frame_rows f))\<rparr>)) \<and>
     (\<exists>b h'. normalize_copy a h = Inr (b, h') \<and> heap_cells h' a = Some f)"
  using export_statistics_instance_Inr [OF assms(1,2)] assign_base_algorithm_Inr [OF assms(1,2)]
    normalize_copy_Inr [OF assms]
  by (auto simp: create_and_save_performance_plot_def)

text \<open>
  The theorem of claim C3 on the frame of the example, which has no
  \<^verbatim>\<open>base_algorithm\<close> column when the loader has built it and has one after the
  statistics export.
\<close>

theorem exporter_writes_to_the_frame_of_the_caller_witness:
  "heap_cells example_heap 0 = Some \<lparr>frame_rows = example_results, base_algorithm_column = None\<rparr> \<and>
   example_results \<noteq> [] \<and> 0 < next_address example_heap \<and>
   (\<exists>files h'. export_statistics_summary [(''TSPA'', 0)] example_heap = Inr (files, h') \<and>
      heap_cells h' 0 =
        Some \<lparr>frame_rows = example_results,
              base_algorithm_column = Some [''greedy'', ''greedy'', ''regret'']\<rparr>)"
proof -
  have pre: "heap_cells example_heap 0 =
      Some \<lparr>frame_rows = example_results, base_algorithm_column = None\<rparr>"
    "frame_rows \<lparr>frame_rows = example_results, base_algorithm_column = None\<rparr> \<noteq> []"
    "0 < next_address example_heap"
    by (simp_all add: example_heap_def example_results_def)
  obtain out h' where out: "export_statistics_instance 0 example_heap = Inr (out, h')"
    "heap_cells h' 0 =
       Some (\<lparr>frame_rows = example_results, base_algorithm_column = None\<rparr>
         \<lparr>base_algorithm_column := Some (map (base_algorithm \<circ> algorithm)
            (frame_rows \<lparr>frame_rows = example_results, base_algorithm_column = None\<rparr>))\<rparr>)"
    using exporter_writes_to_the_frame_of_the_caller [OF pre] by blast
  have "export_statistics_summary [(''TSPA'', 0)] example_heap =
      Inr ([(''TSPA'', fst out, snd out)], h')"
    by (simp add: out(1) split_beta)
  moreover have "heap_cells h' 0 =
        Some \<lparr>frame_rows = example_results,
              base_algorithm_column = Some [''greedy'', ''greedy'', ''regret'']\<rparr>"
    using out(2) by (simp add: example_names)
  ultimately show ?thesis using pre by auto
qed


end
